theory Spec2Isabelle
  imports Main "HOL-Library.AList" "HOL-Library.Char_ord" "HOL-Library.List_Lexorder"
begin

section \<open>Strings\<close>

text \<open>
  Python \<open>str\<close> values are modelled as \<open>string\<close>: lists of 8-bit characters,
  read as the code points below 256. The helpers below are the \<open>str\<close> operations
  the server uses: \<open>needle in text\<close>, \<open>str.upper\<close>, \<open>str.replace\<close> and
  \<open>sep.join\<close>.

  \<open>upper\<close> turns the letters a to z into A to Z and leaves every other character
  alone. The server uses \<open>str.upper\<close> once, to look for a name made of ASCII capitals,
  digits and underscores in the upper-cased text; among the code points below 256
  \<open>str.upper\<close> maps no character other than a to z to a letter of that name, so
  the outcome of the search is the one of the source.
\<close>

definition sq :: char where
  "sq = CHR 0x27"

definition quoted :: "string \<Rightarrow> string" where
  "quoted s = sq # s @ [sq]"

fun starts_with :: "string \<Rightarrow> string \<Rightarrow> bool" where
  "starts_with [] text = True"
| "starts_with (n # ns) [] = False"
| "starts_with (n # ns) (c # cs) = (n = c \<and> starts_with ns cs)"

text \<open>\<open>contains needle text\<close> is Python's \<open>needle in text\<close>.\<close>

fun contains :: "string \<Rightarrow> string \<Rightarrow> bool" where
  "contains needle [] = (needle = [])"
| "contains needle (c # cs) = (starts_with needle (c # cs) \<or> contains needle cs)"

definition to_upper :: "char \<Rightarrow> char" where
  "to_upper c =
     (let n = (of_char c :: nat) in if 97 \<le> n \<and> n \<le> 122 then char_of (n - 32) else c)"

definition upper :: "string \<Rightarrow> string" where
  "upper s = map to_upper s"

text \<open>
  \<open>replace old new text\<close> is \<open>text.replace(old, new)\<close> for a non-empty \<open>old\<close>:
  occurrences are replaced from the left and do not overlap. The first argument of the
  worker bounds the length of the text that is left (every step consumes at least one
  character), so the recursion is structural.
\<close>

fun replace_from :: "nat \<Rightarrow> string \<Rightarrow> string \<Rightarrow> string \<Rightarrow> string" where
  "replace_from 0 old new text = text"
| "replace_from (Suc k) old new [] = []"
| "replace_from (Suc k) old new (c # cs) =
     (if starts_with old (c # cs)
      then new @ replace_from k old new (drop (length old) (c # cs))
      else c # replace_from k old new cs)"

definition replace :: "string \<Rightarrow> string \<Rightarrow> string \<Rightarrow> string" where
  "replace old new text = (if old = [] then text else replace_from (length text) old new text)"

fun join :: "string \<Rightarrow> string list \<Rightarrow> string" where
  "join sep [] = []"
| "join sep [x] = x"
| "join sep (x # y # ys) = x @ sep @ join sep (y # ys)"

text \<open>An f-string renders \<open>None\<close> as the text \<open>None\<close>.\<close>

fun fmt :: "string option \<Rightarrow> string" where
  "fmt None = ''None''"
| "fmt (Some s) = s"

definition placeholder :: string where
  "placeholder = ''@business_unit''"


section \<open>The database registry\<close>

text \<open>
  \<open>DB_CONFIGS\<close> is built once from the process environment. \<open>os.getenv\<close> is the
  parameter \<open>getenv\<close>: a variable that is not set reads as \<open>None\<close>.
\<close>

record db_config =
  server :: "string option"
  database :: "string option"
  username :: "string option"
  password :: "string option"
  driver :: string

definition odbc_driver :: string where
  "odbc_driver = ''{ODBC Driver 17 for SQL Server}''"

definition DB_CONFIGS :: "(string \<Rightarrow> string option) \<Rightarrow> (string \<times> db_config) list" where
  "DB_CONFIGS getenv =
     [(''default'',
        \<lparr>server = getenv ''DEV_SERVER'', database = getenv ''DEV_DATABASE'',
         username = getenv ''DEV_USERNAME'', password = getenv ''DEV_PASSWORD'',
         driver = odbc_driver\<rparr>),
      (''INTEGRACION_CW_20_DEV'',
        \<lparr>server = getenv ''DEV_SERVER'', database = Some ''INTEGRACION_CW_20_DEV'',
         username = getenv ''DEV_USERNAME'', password = getenv ''DEV_PASSWORD'',
         driver = odbc_driver\<rparr>)]"

definition conn_string :: "db_config \<Rightarrow> string" where
  "conn_string config =
     ''DRIVER='' @ driver config @ '';'' @
     ''SERVER='' @ fmt (server config) @ '';'' @
     ''DATABASE='' @ fmt (database config) @ '';'' @
     ''UID='' @ fmt (username config) @ '';'' @
     ''PWD='' @ fmt (password config)"


section \<open>The persisted data\<close>

text \<open>
  The tables the server reads and writes. A nullable column is an \<open>option\<close>. The field
  names carry the alias the source's SQL gives the table (\<open>ar\<close>, \<open>dr\<close>).
\<close>

record column_row =
  TABLE_NAME :: string
  COLUMN_NAME :: string
  DATA_TYPE :: string
  CHARACTER_MAXIMUM_LENGTH :: "int option"
  IS_NULLABLE :: string
  ORDINAL_POSITION :: int

record table_row =
  TABLE_SCHEMA :: string
  TABLE_TYPE :: string
  tr_TABLE_NAME :: string

record role_row =
  dr_code :: string
  dr_description :: string
  dr_application_type :: "string option"
  dr_business_unit :: string
  dr_order :: "int option"

record assigned_report =
  ar_role :: string
  ar_report_prefix :: string
  ar_business_unit :: string
  ar_application_type :: "string option"
  ar_order :: "int option"
  ar_custom_tag :: "string option"
  ar_sales_office :: "string option"
  ar_center_logistical :: "string option"

text \<open>The 14 bound arguments of \<open>sp_ecosystem_create_columns_config\<close>, in call order.\<close>

record sp_args =
  sp_report_prefix :: string
  sp_report_description :: string
  sp_report_description_es :: string
  sp_query :: string
  sp_params_config :: string
  sp_is_detail :: int
  sp_hasDetail :: "int option"
  sp_actionColumn :: "string option"
  sp_detail_prefix :: "string option"
  sp_detail_mode :: "string option"
  sp_open_another_tab :: "int option"
  sp_type_resource :: string
  sp_columns_to_render :: "string option"
  sp_default_for_all :: int

text \<open>
  One database: its catalogue views, the two tables, and the calls the stored procedure
  has received (what the procedure does with them is outside this program).
\<close>

record db =
  COLUMNS :: "column_row list"
  TABLES :: "table_row list"
  default_roles :: "role_row list"
  assigned_reports :: "assigned_report list"
  sp_received :: "sp_args list"

datatype sqlval = SqlStr string | SqlInt int | SqlNull

text \<open>
  One entry of a dynamically built \<open>SET\<close> clause: the text appended to
  \<open>update_fields\<close> together with the value appended to \<open>update_values\<close>.
\<close>

datatype assignment =
    Set_application_type string
  | Set_order int
  | Set_custom_tag string
  | Set_sales_office string
  | Set_center_logistical string


section \<open>Statements, exceptions, the driver\<close>

text \<open>
  Each statement the server sends, with its bound parameters. The constructor names are
  the source's variable names for the statement text.
\<close>

datatype stmt =
    Columns_query string
  | Columns_query_in "string list"
  | Tables_query string
  | Raw_query string
  | Sp_call sp_args
  | Role_query string string
  | Check_query string string string
  | Insert_query assigned_report
  | Current_query string string string
  | Update_query "assignment list" string string string
  | Check_query_in string string "string list"
  | Roles_query_in string string "string list"
  | Update_query_in "assignment list" string string "string list"

datatype exn = ValueError string | KeyError string | DriverError string

datatype event = Connect string | Execute nat stmt | Commit nat | Close nat

text \<open>
  The world outside the process. \<open>store\<close> is the committed content of each database,
  addressed by connection string. \<open>sessions\<close> is the database as each connection sees
  it (committed data plus that connection's own uncommitted writes), by handle.
  \<open>open_conns\<close> are the handles of the connections that are open, \<open>opened\<close> counts
  the handles given out. \<open>log\<close> records every call into the driver. \<open>faults\<close>
  scripts the driver: each call to \<open>connect\<close>, \<open>execute\<close> or \<open>commit\<close> takes
  the next entry, and \<open>Some msg\<close> makes that call raise; an empty script means the
  driver does not fail. Only an explicit \<open>conn.close()\<close> releases a handle: what the
  interpreter does with a connection object that is no longer referenced is not part
  of the model.
\<close>

record world =
  store :: "string \<Rightarrow> db"
  sessions :: "nat \<Rightarrow> db"
  opened :: nat
  open_conns :: "nat list"
  log :: "event list"
  faults :: "string option list"

text \<open>
  A connection as the program holds it: its handle and the database it talks to.
\<close>

record connection =
  handle :: nat
  target :: string

definition view :: "world \<Rightarrow> connection \<Rightarrow> db" where
  "view w conn = sessions w (handle conn)"

text \<open>
  What the engine decides and this program does not: \<open>getenv\<close> (the environment the
  registry is read from), \<open>sql_like pattern text\<close> (the \<open>LIKE\<close> operator under the
  column's collation) and \<open>sql_raw\<close> (the result of an arbitrary statement text:
  an error message, or the column names and the rows).
\<close>

record host =
  getenv :: "string \<Rightarrow> string option"
  sql_like :: "string \<Rightarrow> string \<Rightarrow> bool"
  sql_raw :: "string \<Rightarrow> db \<Rightarrow> string + (string list \<times> sqlval list list)"

definition next_fault :: "world \<Rightarrow> string option \<times> world" where
  "next_fault w =
     (case faults w of [] \<Rightarrow> (None, w) | f # fs \<Rightarrow> (f, w\<lparr>faults := fs\<rparr>))"

text \<open>\<open>pyodbc.connect\<close>: the attempt is logged; on success a fresh handle is open.\<close>

definition pyodbc_connect :: "string \<Rightarrow> world \<Rightarrow> (exn + connection) \<times> world" where
  "pyodbc_connect cs w =
     (case next_fault (w\<lparr>log := log w @ [Connect cs]\<rparr>) of
        (Some msg, w') \<Rightarrow> (Inl (DriverError msg), w')
      | (None, w') \<Rightarrow>
          (Inr \<lparr>handle = opened w', target = cs\<rparr>,
           w'\<lparr>sessions := (sessions w')(opened w' := store w' cs),
              opened := Suc (opened w'), open_conns := open_conns w' @ [opened w']\<rparr>))"

definition get_db_connection ::
  "host \<Rightarrow> string \<Rightarrow> world \<Rightarrow> (exn + connection) \<times> world" where
  "get_db_connection h database_key w =
     (case map_of (DB_CONFIGS (getenv h)) database_key of
        None \<Rightarrow>
          (Inl (ValueError (''Base de datos '' @ quoted database_key @ '' no configurada'')), w)
      | Some config \<Rightarrow> pyodbc_connect (conn_string config) w)"

text \<open>
  Sequencing of calls that may raise: the first exception ends the sequence. \<open>catch\<close>
  is the \<open>except Exception as e\<close> clause that closes a \<open>try\<close> block: the
  exception becomes the reply the handler builds, and nothing escapes.
\<close>

definition and_then ::
  "(exn + 'a) \<times> world \<Rightarrow> ('a \<Rightarrow> world \<Rightarrow> (exn + 'b) \<times> world) \<Rightarrow> (exn + 'b) \<times> world" where
  "and_then r f = (case r of (Inl e, w) \<Rightarrow> (Inl e, w) | (Inr x, w) \<Rightarrow> f x w)"

definition catch ::
  "(exn \<Rightarrow> 'r) \<Rightarrow> (exn + 'r) \<times> world \<Rightarrow> (exn + 'r) \<times> world" where
  "catch handler r = (case r of (Inl e, w) \<Rightarrow> (Inr (handler e), w) | (Inr x, w) \<Rightarrow> (Inr x, w))"

fun apply_set :: "assignment \<Rightarrow> assigned_report \<Rightarrow> assigned_report" where
  "apply_set (Set_application_type v) r = r\<lparr>ar_application_type := Some v\<rparr>"
| "apply_set (Set_order v) r = r\<lparr>ar_order := Some v\<rparr>"
| "apply_set (Set_custom_tag v) r = r\<lparr>ar_custom_tag := Some v\<rparr>"
| "apply_set (Set_sales_office v) r = r\<lparr>ar_sales_office := Some v\<rparr>"
| "apply_set (Set_center_logistical v) r = r\<lparr>ar_center_logistical := Some v\<rparr>"

definition matches_key :: "string \<Rightarrow> string \<Rightarrow> string \<Rightarrow> assigned_report \<Rightarrow> bool" where
  "matches_key business_unit report_prefix role r \<longleftrightarrow>
     ar_business_unit r = business_unit \<and> ar_report_prefix r = report_prefix \<and> ar_role r = role"

definition matches_key_in ::
  "string \<Rightarrow> string \<Rightarrow> string list \<Rightarrow> assigned_report \<Rightarrow> bool" where
  "matches_key_in business_unit report_prefix roles r \<longleftrightarrow>
     ar_business_unit r = business_unit \<and> ar_report_prefix r = report_prefix \<and>
     ar_role r \<in> set roles"

text \<open>What a statement changes in the database the connection sees.\<close>

fun apply_stmt :: "stmt \<Rightarrow> db \<Rightarrow> db" where
  "apply_stmt (Insert_query row) d = d\<lparr>assigned_reports := assigned_reports d @ [row]\<rparr>"
| "apply_stmt (Update_query sets bu prefix role) d =
     d\<lparr>assigned_reports :=
         map (\<lambda>r. if matches_key bu prefix role r then fold apply_set sets r else r)
           (assigned_reports d)\<rparr>"
| "apply_stmt (Update_query_in sets bu prefix roles) d =
     d\<lparr>assigned_reports :=
         map (\<lambda>r. if matches_key_in bu prefix roles r then fold apply_set sets r else r)
           (assigned_reports d)\<rparr>"
| "apply_stmt (Sp_call args) d = d\<lparr>sp_received := sp_received d @ [args]\<rparr>"
| "apply_stmt (Columns_query t) d = d"
| "apply_stmt (Columns_query_in ts) d = d"
| "apply_stmt (Tables_query s) d = d"
| "apply_stmt (Raw_query q) d = d"
| "apply_stmt (Role_query bu pat) d = d"
| "apply_stmt (Check_query bu prefix role) d = d"
| "apply_stmt (Current_query bu prefix role) d = d"
| "apply_stmt (Check_query_in bu prefix roles) d = d"
| "apply_stmt (Roles_query_in bu prefix roles) d = d"

text \<open>
  \<open>cursor.execute\<close>: the call is logged, the driver may raise, otherwise the statement
  takes effect inside the connection (nothing is committed). \<open>conn.commit\<close> publishes
  what the connection has written; \<open>conn.close\<close> releases the handle.
\<close>

definition cursor_execute :: "stmt \<Rightarrow> connection \<Rightarrow> world \<Rightarrow> (exn + unit) \<times> world" where
  "cursor_execute s conn w =
     (case next_fault (w\<lparr>log := log w @ [Execute (handle conn) s]\<rparr>) of
        (Some msg, w') \<Rightarrow> (Inl (DriverError msg), w')
      | (None, w') \<Rightarrow>
          (Inr (), w'\<lparr>sessions := (sessions w')(handle conn := apply_stmt s (view w' conn))\<rparr>))"

definition conn_commit :: "connection \<Rightarrow> world \<Rightarrow> (exn + unit) \<times> world" where
  "conn_commit conn w =
     (case next_fault (w\<lparr>log := log w @ [Commit (handle conn)]\<rparr>) of
        (Some msg, w') \<Rightarrow> (Inl (DriverError msg), w')
      | (None, w') \<Rightarrow> (Inr (), w'\<lparr>store := (store w')(target conn := view w' conn)\<rparr>))"

definition conn_close :: "connection \<Rightarrow> world \<Rightarrow> world" where
  "conn_close conn w =
     w\<lparr>log := log w @ [Close (handle conn)],
       open_conns := removeAll (handle conn) (open_conns w)\<rparr>"

text \<open>\<open>DB_CONFIGS[key]['database']\<close> as an f-string shows it; a missing key raises.\<close>

definition registry_database :: "host \<Rightarrow> string \<Rightarrow> world \<Rightarrow> (exn + string) \<times> world" where
  "registry_database h key w =
     (case map_of (DB_CONFIGS (getenv h)) key of
        None \<Rightarrow> (Inl (KeyError key), w)
      | Some config \<Rightarrow> (Inr (fmt (database config)), w))"


section \<open>What the queries return\<close>

definition select_columns :: "db \<Rightarrow> string \<Rightarrow> column_row list" where
  "select_columns d table_name =
     sort_key ORDINAL_POSITION (filter (\<lambda>c. TABLE_NAME c = table_name) (COLUMNS d))"

definition select_columns_in :: "db \<Rightarrow> string list \<Rightarrow> column_row list" where
  "select_columns_in d table_names =
     sort_key TABLE_NAME
       (sort_key ORDINAL_POSITION (filter (\<lambda>c. TABLE_NAME c \<in> set table_names) (COLUMNS d)))"

definition select_tables :: "db \<Rightarrow> string \<Rightarrow> string list" where
  "select_tables d schema =
     sort (map tr_TABLE_NAME
       (filter (\<lambda>t. TABLE_SCHEMA t = schema \<and> TABLE_TYPE t = ''BASE TABLE'') (TABLES d)))"

definition fetchall_raw ::
  "host \<Rightarrow> string \<Rightarrow> connection \<Rightarrow> world \<Rightarrow> (exn + string list \<times> sqlval list list) \<times> world" where
  "fetchall_raw h text conn w =
     (case sql_raw h text (view w conn) of
        Inl msg \<Rightarrow> (Inl (DriverError msg), w)
      | Inr r \<Rightarrow> (Inr r, w))"

text \<open>
  \<open>role_query\<close>: the roles of a business unit whose description matches the pattern,
  \<open>sys_admin\<close> rows left out (a \<open>NULL\<close> application type does not pass \<open>!=\<close>).
\<close>

definition select_roles :: "host \<Rightarrow> db \<Rightarrow> string \<Rightarrow> string \<Rightarrow> role_row list" where
  "select_roles h d business_unit pattern =
     filter (\<lambda>r. dr_business_unit r = business_unit \<and> sql_like h pattern (dr_description r) \<and>
                 (case dr_application_type r of None \<Rightarrow> False | Some t \<Rightarrow> t \<noteq> ''sys_admin''))
       (default_roles d)"

definition count_assigned :: "db \<Rightarrow> string \<Rightarrow> string \<Rightarrow> string \<Rightarrow> nat" where
  "count_assigned d business_unit report_prefix role =
     length (filter (matches_key business_unit report_prefix role) (assigned_reports d))"

definition count_assigned_in :: "db \<Rightarrow> string \<Rightarrow> string \<Rightarrow> string list \<Rightarrow> nat" where
  "count_assigned_in d business_unit report_prefix roles =
     length (filter (matches_key_in business_unit report_prefix roles) (assigned_reports d))"

text \<open>The description the \<open>LEFT JOIN\<close> on \<open>default_roles\<close> finds for an assignment row.\<close>

definition joined_roles :: "db \<Rightarrow> assigned_report \<Rightarrow> string option list" where
  "joined_roles d r =
     (case filter (\<lambda>dr. dr_code dr = ar_role r \<and> dr_business_unit dr = ar_business_unit r)
             (default_roles d) of
        [] \<Rightarrow> [None]
      | ms \<Rightarrow> map (\<lambda>dr. Some (dr_description dr)) ms)"

definition select_current ::
  "db \<Rightarrow> string \<Rightarrow> string \<Rightarrow> string \<Rightarrow> (assigned_report \<times> string option) list" where
  "select_current d business_unit report_prefix role =
     concat (map (\<lambda>r. map (\<lambda>desc. (r, desc)) (joined_roles d r))
       (filter (matches_key business_unit report_prefix role) (assigned_reports d)))"

definition select_roles_info ::
  "db \<Rightarrow> string \<Rightarrow> string \<Rightarrow> string list \<Rightarrow> (string \<times> string option) list" where
  "select_roles_info d business_unit report_prefix roles =
     sort_key fst
       (concat (map (\<lambda>r. map (\<lambda>desc. (ar_role r, desc)) (joined_roles d r))
         (filter (matches_key_in business_unit report_prefix roles) (assigned_reports d))))"


section \<open>Replies\<close>

text \<open>
  Every operation returns one text block. A reply is modelled by the glyph the text
  starts with (check mark, warning sign, cross, or one of the headline pictograms)
  and the message it is, with the values the message shows.
\<close>

datatype glyph = Check_mark | Warning_mark | Cross_mark | Headline

record column_line =
  cl_name :: string
  cl_type :: string
  cl_length_info :: "int option"
  cl_null_info :: string

datatype item_error =
    Missing_fields "string list"
  | Placeholder_missing
  | Invalid_application_type string
  | No_matching_role string
  | Raised exn

record failed_report =
  fr_index :: nat
  fr_report_prefix :: string
  fr_error :: item_error

record successful_report =
  sr_index :: nat
  sr_report_prefix :: string
  sr_query_database :: string
  sr_sp_database :: string

record failed_assignment =
  fa_index :: nat
  fa_report_prefix :: string
  fa_business_unit :: string
  fa_error :: item_error

record skipped_assignment =
  sk_index :: nat
  sk_report_prefix :: string
  sk_business_unit :: string
  sk_role_code :: string

record successful_assignment =
  sa_index :: nat
  sa_report_prefix :: string
  sa_business_unit :: string
  sa_role_code :: string
  sa_role_description :: string
  sa_application_type :: string
  sa_warning :: "(string \<times> string) option"

record created_report =
  cr_prefix :: string
  cr_description_en :: string
  cr_description_es :: string
  cr_params :: string
  cr_type_resource :: string
  cr_query_database :: string
  cr_sp_database :: string

type_synonym 'm reply = "glyph \<times> 'm"

datatype structure_msg =
    Table_not_found string string
  | Table_structure string string "column_line list"
  | Error_table_structure exn

datatype tables_msg =
    Tables_list string string "string list"
  | Error_list_tables exn

datatype structures_msg =
    No_table_names
  | Tables_not_found "string list" string
  | Table_structures string "(string \<times> column_line list option) list"
  | Error_multiple_structures exn

datatype test_msg =
    Test_needs_placeholder
  | Query_no_results string
  | Query_sample string "string list" "sqlval list list" nat
  | Error_test_query exn

datatype create_msg =
    Create_needs_placeholder
  | Report_created created_report
  | Error_create_report exn

datatype assign_msg =
    Role_not_found string string
  | Already_assigned string string string
  | Report_assigned assigned_report string
  | Error_assign exn

datatype bulk_create_msg =
    No_reports_data
  | Reports_created nat "failed_report list" "successful_report list"
  | Error_bulk_create exn

datatype bulk_assign_msg =
    No_assignments_data
  | Reports_assigned nat "skipped_assignment list" "failed_assignment list"
      "successful_assignment list"
  | Error_bulk_assign exn

datatype update_msg =
    Assignment_missing string string string
  | Current_assignment_unavailable
  | No_update_fields
  | Assignment_updated string string string "string option" "assignment list"
  | Error_update exn

datatype bulk_update_msg =
    No_role_codes
  | Assignments_missing string "string list" string
  | Bulk_no_update_fields
  | Assignments_updated string string nat "(string \<times> string option) list" "assignment list"
  | Error_bulk_update exn


section \<open>Schema introspection\<close>

definition column_line_of :: "column_row \<Rightarrow> column_line" where
  "column_line_of col =
     \<lparr>cl_name = COLUMN_NAME col, cl_type = DATA_TYPE col,
      cl_length_info =
        (case CHARACTER_MAXIMUM_LENGTH col of
           None \<Rightarrow> None
         | Some n \<Rightarrow> if n = 0 then None else Some n),
      cl_null_info = (if IS_NULLABLE col = ''YES'' then ''NULL'' else ''NOT NULL'')\<rparr>"

definition get_table_structure :: "host \<Rightarrow> string \<Rightarrow> string \<Rightarrow> world \<Rightarrow> (exn + structure_msg reply) \<times> world" where
  "get_table_structure h table_name database_key w =
     catch (\<lambda>e. (Cross_mark, Error_table_structure e))
       (and_then (get_db_connection h database_key w) (\<lambda>conn w.
        and_then (cursor_execute (Columns_query table_name) conn w) (\<lambda>_ w.
          let columns = select_columns (view w conn) table_name in
          if columns = [] then
            and_then (registry_database h database_key w) (\<lambda>name w.
              (Inr (Warning_mark, Table_not_found table_name name), w))
          else
            and_then (registry_database h database_key w) (\<lambda>name w.
              (Inr (Headline, Table_structure table_name name (map column_line_of columns)),
               conn_close conn w)))))"

definition list_tables :: "host \<Rightarrow> string \<Rightarrow> string \<Rightarrow> world \<Rightarrow> (exn + tables_msg reply) \<times> world" where
  "list_tables h schema database_key w =
     catch (\<lambda>e. (Cross_mark, Error_list_tables e))
       (and_then (get_db_connection h database_key w) (\<lambda>conn w.
        and_then (cursor_execute (Tables_query schema) conn w) (\<lambda>_ w.
          let tables = select_tables (view w conn) schema in
          and_then (registry_database h database_key w) (\<lambda>name w.
            (Inr (Headline, Tables_list schema name tables), conn_close conn w)))))"

text \<open>
  The loop of \<open>get_multiple_table_structures\<close> that groups the fetched rows by table
  name, as the dictionary \<open>tables_data\<close>.
\<close>

definition tables_data :: "column_row list \<Rightarrow> string \<rightharpoonup> column_line list" where
  "tables_data columns =
     fold (\<lambda>col m.
            m(TABLE_NAME col \<mapsto>
                (case m (TABLE_NAME col) of None \<Rightarrow> [] | Some ls \<Rightarrow> ls) @ [column_line_of col]))
       columns Map.empty"

definition get_multiple_table_structures ::
  "host \<Rightarrow> string list \<Rightarrow> string \<Rightarrow> world \<Rightarrow> (exn + structures_msg reply) \<times> world" where
  "get_multiple_table_structures h table_names database_key w =
     catch (\<lambda>e. (Cross_mark, Error_multiple_structures e))
       (if table_names = [] then (Inr (Warning_mark, No_table_names), w)
        else
          and_then (get_db_connection h database_key w) (\<lambda>conn w.
          and_then (cursor_execute (Columns_query_in table_names) conn w) (\<lambda>_ w.
            let columns = select_columns_in (view w conn) table_names in
            if columns = [] then
              and_then (registry_database h database_key w) (\<lambda>name w.
                (Inr (Warning_mark, Tables_not_found table_names name), w))
            else
              and_then (registry_database h database_key w) (\<lambda>name w.
                (Inr (Headline, Table_structures name
                        (map (\<lambda>t. (t, tables_data columns t)) table_names)),
                 conn_close conn w)))))"


section \<open>Testing a query\<close>

definition test_query ::
  "host \<Rightarrow> string \<Rightarrow> string \<Rightarrow> string \<Rightarrow> world \<Rightarrow> (exn + test_msg reply) \<times> world" where
  "test_query h query business_unit database_key w =
     catch (\<lambda>e. (Cross_mark, Error_test_query e))
       (if \<not> contains placeholder query then (Inr (Warning_mark, Test_needs_placeholder), w)
        else
          and_then (get_db_connection h database_key w) (\<lambda>conn w.
            let test_query = replace placeholder (quoted business_unit) query in
            and_then (cursor_execute (Raw_query test_query) conn w) (\<lambda>_ w.
            and_then (fetchall_raw h test_query conn w) (\<lambda>(columns, rows) w.
              if rows = [] then
                and_then (registry_database h database_key w) (\<lambda>name w.
                  (Inr (Check_mark, Query_no_results name), w))
              else
                and_then (registry_database h database_key w) (\<lambda>name w.
                  (Inr (Check_mark, Query_sample name columns (take 5 rows) (length rows)),
                   conn_close conn w))))))"


section \<open>Creating reports\<close>

text \<open>
  The database a query is attributed to: the caller's \<open>database_key\<close> when given,
  otherwise the secondary database when the upper-cased query text contains its name,
  otherwise the default one.
\<close>

definition query_database_key :: "string option \<Rightarrow> string \<Rightarrow> string" where
  "query_database_key database_key query =
     (case database_key of
        None \<Rightarrow>
          if contains ''INTEGRACION_CW_20_DEV'' (upper query) then ''INTEGRACION_CW_20_DEV''
          else ''default''
      | Some k \<Rightarrow> k)"

text \<open>
  A \<open>dict\<close> with string keys and values is an association list in insertion order.
  \<open>dict_update d other\<close> is \<open>d.update(other)\<close>: a key that is present keeps its
  place and takes the new value, a new key goes to the end.
\<close>

definition dict_update :: "(string \<times> string) list \<Rightarrow> (string \<times> string) list \<Rightarrow> (string \<times> string) list" where
  "dict_update d other = fold (\<lambda>(k, v). AList.update k v) other d"

definition params_config :: "(string \<times> string) list option \<Rightarrow> (string \<times> string) list" where
  "params_config additional_params =
     (case additional_params of
        None \<Rightarrow> [(''business_unit'', ''NVARCHAR(20)'')]
      | Some ps \<Rightarrow>
          if ps = [] then [(''business_unit'', ''NVARCHAR(20)'')]
          else dict_update [(''business_unit'', ''NVARCHAR(20)'')] ps)"

text \<open>
  \<open>json.dumps\<close> of such a dictionary, with the default separators and
  \<open>ensure_ascii\<close>: inside a string the double quote, the backslash and every character
  outside the range from space to tilde are escaped.
\<close>

definition hex_digit :: "nat \<Rightarrow> char" where
  "hex_digit k = ''0123456789abcdef'' ! (k mod 16)"

definition json_escape :: "char \<Rightarrow> string" where
  "json_escape c =
     (let n = (of_char c :: nat) in
      if n = 34 then [CHR 0x5C, CHR 0x22]
      else if n = 92 then [CHR 0x5C, CHR 0x5C]
      else if n = 10 then [CHR 0x5C, CHR ''n'']
      else if n = 13 then [CHR 0x5C, CHR ''r'']
      else if n = 9 then [CHR 0x5C, CHR ''t'']
      else if n = 8 then [CHR 0x5C, CHR ''b'']
      else if n = 12 then [CHR 0x5C, CHR ''f'']
      else if n < 32 \<or> 126 < n then
        [CHR 0x5C, CHR ''u'', CHR ''0'', CHR ''0'', hex_digit (n div 16), hex_digit n]
      else [c])"

definition json_string :: "string \<Rightarrow> string" where
  "json_string s = CHR 0x22 # concat (map json_escape s) @ [CHR 0x22]"

definition json_dumps :: "(string \<times> string) list \<Rightarrow> string" where
  "json_dumps d =
     ''{'' @ join '', '' (map (\<lambda>(k, v). json_string k @ '': '' @ json_string v) d) @ ''}''"

definition create_report ::
  "host \<Rightarrow> string \<Rightarrow> string \<Rightarrow> string \<Rightarrow> string \<Rightarrow> (string \<times> string) list option \<Rightarrow> int \<Rightarrow>
   int option \<Rightarrow> string option \<Rightarrow> string option \<Rightarrow> string option \<Rightarrow> int option \<Rightarrow> string \<Rightarrow>
   string option \<Rightarrow> int \<Rightarrow> string option \<Rightarrow> world \<Rightarrow> (exn + create_msg reply) \<times> world" where
  "create_report h report_prefix report_description_en report_description_es query
     additional_params is_detail has_detail action_column detail_prefix detail_mode
     open_another_tab type_resource columns_to_render default_for_all database_key w =
     catch (\<lambda>e. (Cross_mark, Error_create_report e))
       (if \<not> contains placeholder query then (Inr (Warning_mark, Create_needs_placeholder), w)
        else
          let key = query_database_key database_key query;
              params_json = json_dumps (params_config additional_params)
          in
          and_then (get_db_connection h ''default'' w) (\<lambda>conn w.
          and_then (cursor_execute
                      (Sp_call
                        \<lparr>sp_report_prefix = report_prefix,
                         sp_report_description = report_description_en,
                         sp_report_description_es = report_description_es,
                         sp_query = query,
                         sp_params_config = params_json,
                         sp_is_detail = is_detail,
                         sp_hasDetail = has_detail,
                         sp_actionColumn = action_column,
                         sp_detail_prefix = detail_prefix,
                         sp_detail_mode = detail_mode,
                         sp_open_another_tab = open_another_tab,
                         sp_type_resource = type_resource,
                         sp_columns_to_render = columns_to_render,
                         sp_default_for_all = default_for_all\<rparr>) conn w) (\<lambda>_ w.
          and_then (conn_commit conn w) (\<lambda>_ w.
          and_then (registry_database h key (conn_close conn w)) (\<lambda>query_db w.
          and_then (registry_database h ''default'' w) (\<lambda>sp_db w.
            (Inr (Check_mark,
                  Report_created
                    \<lparr>cr_prefix = report_prefix,
                     cr_description_en = report_description_en,
                     cr_description_es = report_description_es,
                     cr_params = params_json,
                     cr_type_resource = type_resource,
                     cr_query_database = query_db,
                     cr_sp_database = sp_db\<rparr>), w)))))))"

text \<open>
  One item of \<open>reports_data\<close>: a dictionary with the documented keys; a key that is
  absent is \<open>None\<close>. \<open>item name v\<close> is the subscript \<open>report_data[name]\<close>, which
  raises \<open>KeyError\<close> on an absent key.
\<close>

record report_data =
  rd_report_prefix :: "string option"
  rd_report_description_en :: "string option"
  rd_report_description_es :: "string option"
  rd_query :: "string option"
  rd_additional_params :: "(string \<times> string) list option"
  rd_is_detail :: "int option"
  rd_has_detail :: "int option"
  rd_action_column :: "string option"
  rd_detail_prefix :: "string option"
  rd_detail_mode :: "string option"
  rd_open_another_tab :: "int option"
  rd_type_resource :: "string option"
  rd_columns_to_render :: "string option"
  rd_default_for_all :: "int option"
  rd_database_key :: "string option"

definition item :: "string \<Rightarrow> 'a option \<Rightarrow> world \<Rightarrow> (exn + 'a) \<times> world" where
  "item name v w = (case v of None \<Rightarrow> (Inl (KeyError name), w) | Some x \<Rightarrow> (Inr x, w))"

definition get_or :: "'a option \<Rightarrow> 'a \<Rightarrow> 'a" where
  "get_or v dflt = (case v of None \<Rightarrow> dflt | Some x \<Rightarrow> x)"

definition missing_report_fields :: "report_data \<Rightarrow> string list" where
  "missing_report_fields rd =
     map fst (filter (\<lambda>(field, v). v = None)
       [(''report_prefix'', rd_report_prefix rd),
        (''report_description_en'', rd_report_description_en rd),
        (''report_description_es'', rd_report_description_es rd),
        (''query'', rd_query rd)])"

text \<open>
  The body of the inner \<open>try\<close> for item number \<open>i\<close>: it ends in the entry appended to
  \<open>failed_reports\<close> (\<open>Inl\<close>) or to \<open>successful_reports\<close> (\<open>Inr\<close>), or raises.
\<close>

definition create_item_try ::
  "host \<Rightarrow> connection \<Rightarrow> nat \<Rightarrow> report_data \<Rightarrow> world \<Rightarrow>
   (exn + (failed_report + successful_report)) \<times> world" where
  "create_item_try h conn i rd w =
     (let missing_fields = missing_report_fields rd in
      if missing_fields \<noteq> [] then
        (Inr (Inl \<lparr>fr_index = i, fr_report_prefix = get_or (rd_report_prefix rd) ''N/A'',
                   fr_error = Missing_fields missing_fields\<rparr>), w)
      else
        and_then (item ''query'' (rd_query rd) w) (\<lambda>query w.
        and_then (item ''report_prefix'' (rd_report_prefix rd) w) (\<lambda>report_prefix w.
          if \<not> contains placeholder query then
            (Inr (Inl \<lparr>fr_index = i, fr_report_prefix = report_prefix,
                       fr_error = Placeholder_missing\<rparr>), w)
          else
            let key = query_database_key (rd_database_key rd) query;
                params_json = json_dumps (params_config (rd_additional_params rd))
            in
            and_then (item ''report_description_en'' (rd_report_description_en rd) w) (\<lambda>en w.
            and_then (item ''report_description_es'' (rd_report_description_es rd) w) (\<lambda>es w.
            and_then (cursor_execute
                        (Sp_call
                          \<lparr>sp_report_prefix = report_prefix,
                           sp_report_description = en,
                           sp_report_description_es = es,
                           sp_query = query,
                           sp_params_config = params_json,
                           sp_is_detail = get_or (rd_is_detail rd) 0,
                           sp_hasDetail = rd_has_detail rd,
                           sp_actionColumn = rd_action_column rd,
                           sp_detail_prefix = rd_detail_prefix rd,
                           sp_detail_mode = rd_detail_mode rd,
                           sp_open_another_tab = rd_open_another_tab rd,
                           sp_type_resource = get_or (rd_type_resource rd) ''table'',
                           sp_columns_to_render = rd_columns_to_render rd,
                           sp_default_for_all = get_or (rd_default_for_all rd) 0\<rparr>) conn w) (\<lambda>_ w.
            and_then (registry_database h key w) (\<lambda>query_db w.
            and_then (registry_database h ''default'' w) (\<lambda>sp_db w.
              (Inr (Inr \<lparr>sr_index = i, sr_report_prefix = report_prefix,
                         sr_query_database = query_db, sr_sp_database = sp_db\<rparr>), w))))))))) "

text \<open>
  One turn of the loop: the lists \<open>successful_reports\<close> and \<open>failed_reports\<close> and the
  counter \<open>total_created\<close> after item \<open>i\<close>. The inner \<open>except\<close> records a raised
  exception as a failure of that item and the loop goes on.
\<close>

type_synonym create_state = "successful_report list \<times> failed_report list \<times> nat"

definition create_item ::
  "host \<Rightarrow> connection \<Rightarrow> nat \<Rightarrow> report_data \<Rightarrow> create_state \<Rightarrow> world \<Rightarrow> create_state \<times> world" where
  "create_item h conn i rd st w =
     (case st of (successful_reports, failed_reports, total_created) \<Rightarrow>
        (case create_item_try h conn i rd w of
           (Inl e, w') \<Rightarrow>
             ((successful_reports,
               failed_reports @
                 [\<lparr>fr_index = i, fr_report_prefix = get_or (rd_report_prefix rd) ''N/A'',
                   fr_error = Raised e\<rparr>],
               total_created), w')
         | (Inr (Inl failure), w') \<Rightarrow>
             ((successful_reports, failed_reports @ [failure], total_created), w')
         | (Inr (Inr success), w') \<Rightarrow>
             ((successful_reports @ [success], failed_reports, total_created + 1), w')))"

fun create_loop ::
  "host \<Rightarrow> connection \<Rightarrow> nat \<Rightarrow> report_data list \<Rightarrow> create_state \<Rightarrow> world \<Rightarrow> create_state \<times> world" where
  "create_loop h conn i [] st w = (st, w)"
| "create_loop h conn i (rd # rds) st w =
     (case create_item h conn i rd st w of (st', w') \<Rightarrow> create_loop h conn (Suc i) rds st' w')"

definition bulk_create_reports ::
  "host \<Rightarrow> report_data list \<Rightarrow> world \<Rightarrow> (exn + bulk_create_msg reply) \<times> world" where
  "bulk_create_reports h reports_data w =
     catch (\<lambda>e. (Cross_mark, Error_bulk_create e))
       (if reports_data = [] then (Inr (Warning_mark, No_reports_data), w)
        else
          and_then (get_db_connection h ''default'' w) (\<lambda>conn w.
            case create_loop h conn 1 reports_data ([], [], 0) w of
              ((successful_reports, failed_reports, total_created), w) \<Rightarrow>
                and_then (conn_commit conn w) (\<lambda>_ w.
                  (Inr (Headline, Reports_created total_created failed_reports successful_reports),
                   conn_close conn w))))"


section \<open>Assigning reports to roles\<close>

definition assign_report_to_role ::
  "host \<Rightarrow> string \<Rightarrow> string \<Rightarrow> string \<Rightarrow> string option \<Rightarrow> int option \<Rightarrow> string option \<Rightarrow>
   string option \<Rightarrow> string option \<Rightarrow> world \<Rightarrow> (exn + assign_msg reply) \<times> world" where
  "assign_report_to_role h report_prefix business_unit role_description application_type
     order custom_tag sales_office center_logistical w =
     catch (\<lambda>e. (Cross_mark, Error_assign e))
       (and_then (get_db_connection h ''default'' w) (\<lambda>conn w.
        and_then (cursor_execute
                    (Role_query business_unit (''%'' @ role_description @ ''%'')) conn w) (\<lambda>_ w.
          case select_roles h (view w conn) business_unit (''%'' @ role_description @ ''%'') of
            [] \<Rightarrow> (Inr (Cross_mark, Role_not_found role_description business_unit), w)
          | role # others \<Rightarrow>
              let role_code = dr_code role;
                  role_desc = dr_description role;
                  row = \<lparr>ar_role = role_code, ar_report_prefix = report_prefix,
                         ar_business_unit = business_unit,
                         ar_application_type = application_type, ar_order = order,
                         ar_custom_tag = custom_tag, ar_sales_office = sales_office,
                         ar_center_logistical = center_logistical\<rparr>
              in
              and_then (cursor_execute
                          (Check_query business_unit report_prefix role_code) conn w) (\<lambda>_ w.
                let exists = count_assigned (view w conn) business_unit report_prefix role_code in
                if exists > 0 then
                  (Inr (Warning_mark, Already_assigned report_prefix role_code business_unit), w)
                else
                  and_then (cursor_execute (Insert_query row) conn w) (\<lambda>_ w.
                  and_then (conn_commit conn w) (\<lambda>_ w.
                    (Inr (if others \<noteq> [] then Warning_mark else Check_mark,
                          Report_assigned row role_desc),
                     conn_close conn w)))))))"

text \<open>One item of \<open>assignments_data\<close>, a dictionary with the documented keys.\<close>

record assignment_data =
  ad_report_prefix :: "string option"
  ad_business_unit :: "string option"
  ad_role_description :: "string option"
  ad_application_type :: "string option"
  ad_order :: "int option"
  ad_custom_tag :: "string option"
  ad_sales_office :: "string option"
  ad_center_logistical :: "string option"

definition missing_assignment_fields :: "assignment_data \<Rightarrow> string list" where
  "missing_assignment_fields ad =
     map fst (filter (\<lambda>(field, v). v = None)
       [(''report_prefix'', ad_report_prefix ad),
        (''business_unit'', ad_business_unit ad),
        (''role_description'', ad_role_description ad),
        (''application_type'', ad_application_type ad)])"

datatype assign_outcome =
    Failed failed_assignment
  | Skipped skipped_assignment
  | Inserted successful_assignment

text \<open>
  The body of the inner \<open>try\<close> for item number \<open>i\<close>: it ends in the entry appended to
  one of the three lists, or raises.
\<close>

definition assign_item_try ::
  "host \<Rightarrow> connection \<Rightarrow> nat \<Rightarrow> assignment_data \<Rightarrow> world \<Rightarrow> (exn + assign_outcome) \<times> world" where
  "assign_item_try h conn i ad w =
     (let missing_fields = missing_assignment_fields ad in
      if missing_fields \<noteq> [] then
        (Inr (Failed \<lparr>fa_index = i, fa_report_prefix = get_or (ad_report_prefix ad) ''N/A'',
                      fa_business_unit = get_or (ad_business_unit ad) ''N/A'',
                      fa_error = Missing_fields missing_fields\<rparr>), w)
      else
        and_then (item ''application_type'' (ad_application_type ad) w) (\<lambda>app_type w.
        and_then (item ''report_prefix'' (ad_report_prefix ad) w) (\<lambda>report_prefix w.
        and_then (item ''business_unit'' (ad_business_unit ad) w) (\<lambda>business_unit w.
          if app_type \<notin> set [''sales_force'', ''merchandising''] then
            (Inr (Failed \<lparr>fa_index = i, fa_report_prefix = report_prefix,
                          fa_business_unit = business_unit,
                          fa_error = Invalid_application_type app_type\<rparr>), w)
          else
            and_then (item ''role_description'' (ad_role_description ad) w) (\<lambda>role_description w.
            and_then (cursor_execute
                        (Role_query business_unit (''%'' @ role_description @ ''%'')) conn w) (\<lambda>_ w.
              case select_roles h (view w conn) business_unit (''%'' @ role_description @ ''%'') of
                [] \<Rightarrow>
                  (Inr (Failed \<lparr>fa_index = i, fa_report_prefix = report_prefix,
                                fa_business_unit = business_unit,
                                fa_error = No_matching_role role_description\<rparr>), w)
              | role # others \<Rightarrow>
                  let role_code = dr_code role;
                      role_desc = dr_description role;
                      warning_msg = (if others \<noteq> [] then Some (role_code, role_desc) else None)
                  in
                  and_then (cursor_execute
                              (Check_query business_unit report_prefix role_code) conn w) (\<lambda>_ w.
                    let exists = count_assigned (view w conn) business_unit report_prefix role_code
                    in
                    if exists > 0 then
                      (Inr (Skipped \<lparr>sk_index = i, sk_report_prefix = report_prefix,
                                     sk_business_unit = business_unit,
                                     sk_role_code = role_code\<rparr>), w)
                    else
                      and_then (cursor_execute
                                  (Insert_query
                                    \<lparr>ar_role = role_code, ar_report_prefix = report_prefix,
                                     ar_business_unit = business_unit,
                                     ar_application_type = Some app_type,
                                     ar_order = ad_order ad,
                                     ar_custom_tag = ad_custom_tag ad,
                                     ar_sales_office = ad_sales_office ad,
                                     ar_center_logistical = ad_center_logistical ad\<rparr>)
                                  conn w) (\<lambda>_ w.
                        (Inr (Inserted \<lparr>sa_index = i, sa_report_prefix = report_prefix,
                                        sa_business_unit = business_unit,
                                        sa_role_code = role_code,
                                        sa_role_description = role_desc,
                                        sa_application_type = app_type,
                                        sa_warning = warning_msg\<rparr>), w)))))))))"

type_synonym assign_state =
  "successful_assignment list \<times> failed_assignment list \<times> skipped_assignment list \<times> nat"

definition assign_item ::
  "host \<Rightarrow> connection \<Rightarrow> nat \<Rightarrow> assignment_data \<Rightarrow> assign_state \<Rightarrow> world \<Rightarrow> assign_state \<times> world" where
  "assign_item h conn i ad st w =
     (case st of (successful, failed, skipped, total_inserted) \<Rightarrow>
        (case assign_item_try h conn i ad w of
           (Inl e, w') \<Rightarrow>
             ((successful,
               failed @
                 [\<lparr>fa_index = i, fa_report_prefix = get_or (ad_report_prefix ad) ''N/A'',
                   fa_business_unit = get_or (ad_business_unit ad) ''N/A'',
                   fa_error = Raised e\<rparr>],
               skipped, total_inserted), w')
         | (Inr (Failed f), w') \<Rightarrow> ((successful, failed @ [f], skipped, total_inserted), w')
         | (Inr (Skipped k), w') \<Rightarrow> ((successful, failed, skipped @ [k], total_inserted), w')
         | (Inr (Inserted a), w') \<Rightarrow>
             ((successful @ [a], failed, skipped, total_inserted + 1), w')))"

fun assign_loop ::
  "host \<Rightarrow> connection \<Rightarrow> nat \<Rightarrow> assignment_data list \<Rightarrow> assign_state \<Rightarrow> world \<Rightarrow>
   assign_state \<times> world" where
  "assign_loop h conn i [] st w = (st, w)"
| "assign_loop h conn i (ad # ads) st w =
     (case assign_item h conn i ad st w of (st', w') \<Rightarrow> assign_loop h conn (Suc i) ads st' w')"

definition bulk_assign_reports_to_roles ::
  "host \<Rightarrow> assignment_data list \<Rightarrow> world \<Rightarrow> (exn + bulk_assign_msg reply) \<times> world" where
  "bulk_assign_reports_to_roles h assignments_data w =
     catch (\<lambda>e. (Cross_mark, Error_bulk_assign e))
       (if assignments_data = [] then (Inr (Warning_mark, No_assignments_data), w)
        else
          and_then (get_db_connection h ''default'' w) (\<lambda>conn w.
            case assign_loop h conn 1 assignments_data ([], [], [], 0) w of
              ((successful, failed, skipped, total_inserted), w) \<Rightarrow>
                and_then (conn_commit conn w) (\<lambda>_ w.
                  (Inr (Headline, Reports_assigned total_inserted skipped failed successful),
                   conn_close conn w))))"


section \<open>Updating assignments\<close>

text \<open>
  The \<open>SET\<close> clause: one entry for each optional argument that is not \<open>None\<close>, in
  the order the source tests them.
\<close>

definition update_fields ::
  "string option \<Rightarrow> int option \<Rightarrow> string option \<Rightarrow> string option \<Rightarrow> string option \<Rightarrow>
   assignment list" where
  "update_fields application_type order custom_tag sales_office center_logistical =
     (case application_type of None \<Rightarrow> [] | Some v \<Rightarrow> [Set_application_type v]) @
     (case order of None \<Rightarrow> [] | Some v \<Rightarrow> [Set_order v]) @
     (case custom_tag of None \<Rightarrow> [] | Some v \<Rightarrow> [Set_custom_tag v]) @
     (case sales_office of None \<Rightarrow> [] | Some v \<Rightarrow> [Set_sales_office v]) @
     (case center_logistical of None \<Rightarrow> [] | Some v \<Rightarrow> [Set_center_logistical v])"

text \<open>The entries of the change list: the fields whose new value differs from the current one.\<close>

fun differs :: "assigned_report \<Rightarrow> assignment \<Rightarrow> bool" where
  "differs cur (Set_application_type v) = (ar_application_type cur \<noteq> Some v)"
| "differs cur (Set_order v) = (ar_order cur \<noteq> Some v)"
| "differs cur (Set_custom_tag v) = (ar_custom_tag cur \<noteq> Some v)"
| "differs cur (Set_sales_office v) = (ar_sales_office cur \<noteq> Some v)"
| "differs cur (Set_center_logistical v) = (ar_center_logistical cur \<noteq> Some v)"

definition update_report_assignment ::
  "host \<Rightarrow> string \<Rightarrow> string \<Rightarrow> string \<Rightarrow> string option \<Rightarrow> int option \<Rightarrow> string option \<Rightarrow>
   string option \<Rightarrow> string option \<Rightarrow> world \<Rightarrow> (exn + update_msg reply) \<times> world" where
  "update_report_assignment h report_prefix business_unit role_code application_type order
     custom_tag sales_office center_logistical w =
     catch (\<lambda>e. (Cross_mark, Error_update e))
       (and_then (get_db_connection h ''default'' w) (\<lambda>conn w.
        and_then (cursor_execute
                    (Check_query business_unit report_prefix role_code) conn w) (\<lambda>_ w.
          let exists = count_assigned (view w conn) business_unit report_prefix role_code in
          if exists = 0 then
            (Inr (Cross_mark, Assignment_missing report_prefix role_code business_unit), w)
          else
            and_then (cursor_execute
                        (Current_query business_unit report_prefix role_code) conn w) (\<lambda>_ w.
              case select_current (view w conn) business_unit report_prefix role_code of
                [] \<Rightarrow> (Inr (Cross_mark, Current_assignment_unavailable), w)
              | (current, role_desc) # others \<Rightarrow>
                  let fields = update_fields application_type order custom_tag sales_office
                                 center_logistical
                  in
                  if fields = [] then (Inr (Warning_mark, No_update_fields), w)
                  else
                    and_then (cursor_execute
                                (Update_query fields business_unit report_prefix role_code)
                                conn w) (\<lambda>_ w.
                    and_then (conn_commit conn w) (\<lambda>_ w.
                      (Inr (Check_mark,
                            Assignment_updated report_prefix business_unit role_code role_desc
                              (filter (differs current) fields)),
                       conn_close conn w)))))))"

definition bulk_update_report_assignments ::
  "host \<Rightarrow> string \<Rightarrow> string \<Rightarrow> string list \<Rightarrow> string option \<Rightarrow> int option \<Rightarrow> string option \<Rightarrow>
   string option \<Rightarrow> string option \<Rightarrow> world \<Rightarrow> (exn + bulk_update_msg reply) \<times> world" where
  "bulk_update_report_assignments h report_prefix business_unit role_codes application_type
     order custom_tag sales_office center_logistical w =
     catch (\<lambda>e. (Cross_mark, Error_bulk_update e))
       (if role_codes = [] then (Inr (Warning_mark, No_role_codes), w)
        else
          and_then (get_db_connection h ''default'' w) (\<lambda>conn w.
          and_then (cursor_execute
                      (Check_query_in business_unit report_prefix role_codes) conn w) (\<lambda>_ w.
            let exists_count =
                  count_assigned_in (view w conn) business_unit report_prefix role_codes
            in
            if exists_count = 0 then
              (Inr (Cross_mark, Assignments_missing report_prefix role_codes business_unit), w)
            else
              and_then (cursor_execute
                          (Roles_query_in business_unit report_prefix role_codes) conn w) (\<lambda>_ w.
                let roles_info =
                      select_roles_info (view w conn) business_unit report_prefix role_codes;
                    fields = update_fields application_type order custom_tag sales_office
                               center_logistical
                in
                if fields = [] then (Inr (Warning_mark, Bulk_no_update_fields), w)
                else
                  let affected_rows =
                        count_assigned_in (view w conn) business_unit report_prefix role_codes
                  in
                  and_then (cursor_execute
                              (Update_query_in fields business_unit report_prefix role_codes)
                              conn w) (\<lambda>_ w.
                  and_then (conn_commit conn w) (\<lambda>_ w.
                    (Inr (Check_mark,
                          Assignments_updated report_prefix business_unit affected_rows
                            roles_info fields),
                     conn_close conn w)))))))"


section \<open>Notions used by the properties\<close>

text \<open>The connection string of the registry entry \<open>default\<close>.\<close>

definition default_target :: "host \<Rightarrow> string" where
  "default_target h =
     conn_string
       \<lparr>server = getenv h ''DEV_SERVER'', database = getenv h ''DEV_DATABASE'',
        username = getenv h ''DEV_USERNAME'', password = getenv h ''DEV_PASSWORD'',
        driver = odbc_driver\<rparr>"

text \<open>The driver calls made between two states of the world, and the statements among them.\<close>

definition events_since :: "world \<Rightarrow> world \<Rightarrow> event list" where
  "events_since w w' = drop (length (log w)) (log w')"

fun executed :: "event list \<Rightarrow> stmt list" where
  "executed [] = []"
| "executed (Execute n s # es) = s # executed es"
| "executed (Connect cs # es) = executed es"
| "executed (Commit n # es) = executed es"
| "executed (Close n # es) = executed es"

fun is_close :: "event \<Rightarrow> bool" where
  "is_close (Close n) = True"
| "is_close (Connect cs) = False"
| "is_close (Execute n s) = False"
| "is_close (Commit n) = False"

fun is_insert :: "stmt \<Rightarrow> bool" where
  "is_insert (Insert_query row) = True"
| "is_insert (Columns_query t) = False"
| "is_insert (Columns_query_in ts) = False"
| "is_insert (Tables_query s) = False"
| "is_insert (Raw_query q) = False"
| "is_insert (Sp_call args) = False"
| "is_insert (Role_query bu pat) = False"
| "is_insert (Check_query bu prefix role) = False"
| "is_insert (Current_query bu prefix role) = False"
| "is_insert (Update_query sets bu prefix role) = False"
| "is_insert (Check_query_in bu prefix roles) = False"
| "is_insert (Roles_query_in bu prefix roles) = False"
| "is_insert (Update_query_in sets bu prefix roles) = False"

fun is_update :: "stmt \<Rightarrow> bool" where
  "is_update (Update_query sets bu prefix role) = True"
| "is_update (Update_query_in sets bu prefix roles) = True"
| "is_update (Insert_query row) = False"
| "is_update (Columns_query t) = False"
| "is_update (Columns_query_in ts) = False"
| "is_update (Tables_query s) = False"
| "is_update (Raw_query q) = False"
| "is_update (Sp_call args) = False"
| "is_update (Role_query bu pat) = False"
| "is_update (Check_query bu prefix role) = False"
| "is_update (Current_query bu prefix role) = False"
| "is_update (Check_query_in bu prefix roles) = False"
| "is_update (Roles_query_in bu prefix roles) = False"





text \<open>An item of \<open>reports_data\<close> whose query text is there and has the placeholder.\<close>

definition query_has_placeholder :: "report_data \<Rightarrow> bool" where
  "query_has_placeholder rd \<longleftrightarrow>
     (case rd_query rd of None \<Rightarrow> False | Some q \<Rightarrow> contains placeholder q)"

text \<open>
  No key of \<open>assigned_reports\<close> has gained a duplicate between two states of a
  database: a key has at most as many rows as before, or one.
\<close>

definition no_new_duplicates :: "db \<Rightarrow> db \<Rightarrow> bool" where
  "no_new_duplicates d d' \<longleftrightarrow>
     (\<forall>bu p r. count_assigned d' bu p r \<le> max 1 (count_assigned d bu p r))"


section \<open>Example data\<close>

definition example_env :: "string \<Rightarrow> string option" where
  "example_env name =
     (if name = ''DEV_SERVER'' then Some ''srv''
      else if name = ''DEV_DATABASE'' then Some ''dev''
      else if name = ''DEV_USERNAME'' then Some ''u''
      else if name = ''DEV_PASSWORD'' then Some ''p''
      else None)"

text \<open>A \<open>LIKE\<close> for patterns of the form \<open>%text%\<close>: the text occurs in the value.\<close>

definition example_like :: "string \<Rightarrow> string \<Rightarrow> bool" where
  "example_like pattern text = contains (butlast (tl pattern)) text"

definition example_rows :: "sqlval list list" where
  "example_rows =
     [[SqlInt 1], [SqlInt 2], [SqlInt 3], [SqlInt 4], [SqlInt 5], [SqlInt 6], [SqlInt 7]]"

definition example_host :: host where
  "example_host =
     \<lparr>getenv = example_env, sql_like = example_like,
      sql_raw = (\<lambda>text d. Inr ([''n''], example_rows))\<rparr>"

definition example_row :: assigned_report where
  "example_row =
     \<lparr>ar_role = ''ADM'', ar_report_prefix = ''sales'', ar_business_unit = ''BU1'',
      ar_application_type = None, ar_order = None, ar_custom_tag = None,
      ar_sales_office = None, ar_center_logistical = None\<rparr>"

definition example_db :: "assigned_report list \<Rightarrow> db" where
  "example_db rows =
     \<lparr>COLUMNS = [], TABLES = [],
      default_roles =
        [\<lparr>dr_code = ''ADM'', dr_description = ''administrador'',
          dr_application_type = Some ''sales_force'', dr_business_unit = ''BU1'',
          dr_order = None\<rparr>],
      assigned_reports = rows, sp_received = []\<rparr>"

text \<open>A world whose databases all hold the given assignment rows; the driver never fails.\<close>

definition example_world :: "assigned_report list \<Rightarrow> world" where
  "example_world rows =
     \<lparr>store = (\<lambda>cs. example_db rows), sessions = (\<lambda>n. example_db rows), opened = 0,
      open_conns = [], log = [], faults = []\<rparr>"

definition example_report :: "string option \<Rightarrow> report_data" where
  "example_report query =
     \<lparr>rd_report_prefix = Some ''sales'', rd_report_description_en = Some ''Sales'',
      rd_report_description_es = Some ''Ventas'', rd_query = query,
      rd_additional_params = None, rd_is_detail = None, rd_has_detail = None,
      rd_action_column = None, rd_detail_prefix = None, rd_detail_mode = None,
      rd_open_another_tab = None, rd_type_resource = None, rd_columns_to_render = None,
      rd_default_for_all = None, rd_database_key = None\<rparr>"

definition example_assignment :: assignment_data where
  "example_assignment =
     \<lparr>ad_report_prefix = Some ''sales'', ad_business_unit = Some ''BU1'',
      ad_role_description = Some ''admin'', ad_application_type = Some ''sales_force'',
      ad_order = None, ad_custom_tag = None, ad_sales_office = None,
      ad_center_logistical = None\<rparr>"


section \<open>Basic facts\<close>

lemma and_then_Inl [simp]: "and_then (Inl e, w) f = (Inl e, w)"
  by (simp add: and_then_def)

lemma and_then_Inr [simp]: "and_then (Inr x, w) f = f x w"
  by (simp add: and_then_def)

lemma catch_Inl [simp]: "catch handler (Inl e, w) = (Inr (handler e), w)"
  by (simp add: catch_def)

lemma catch_Inr [simp]: "catch handler (Inr x, w) = (Inr x, w)"
  by (simp add: catch_def)


lemma get_default_connection:
  "get_db_connection h ''default'' w = pyodbc_connect (default_target h) w"
  by (simp add: get_db_connection_def DB_CONFIGS_def default_target_def)

lemma get_unknown_connection:
  "map_of (DB_CONFIGS (getenv h)) key = None \<Longrightarrow>
   get_db_connection h key w =
     (Inl (ValueError (''Base de datos '' @ quoted key @ '' no configurada'')), w)"
  by (simp add: get_db_connection_def)

lemma connect_ok:
  "faults w = [] \<Longrightarrow>
   pyodbc_connect cs w =
     (Inr \<lparr>handle = opened w, target = cs\<rparr>,
      w\<lparr>log := log w @ [Connect cs],
        sessions := (sessions w)(opened w := store w cs),
        opened := Suc (opened w), open_conns := open_conns w @ [opened w]\<rparr>)"
  by (simp add: pyodbc_connect_def next_fault_def)

lemma execute_ok:
  "faults w = [] \<Longrightarrow>
   cursor_execute s conn w =
     (Inr (), w\<lparr>log := log w @ [Execute (handle conn) s],
              sessions := (sessions w)(handle conn := apply_stmt s (sessions w (handle conn)))\<rparr>)"
  by (simp add: cursor_execute_def next_fault_def view_def)

lemma commit_ok:
  "faults w = [] \<Longrightarrow>
   conn_commit conn w =
     (Inr (), w\<lparr>log := log w @ [Commit (handle conn)],
              store := (store w)(target conn := sessions w (handle conn))\<rparr>)"
  by (simp add: conn_commit_def next_fault_def view_def)


lemma executed_append: "executed (xs @ ys) = executed xs @ executed ys"
  by (induction xs rule: executed.induct) simp_all


lemma cursor_execute_log:
  "cursor_execute s conn w = (r, w') \<Longrightarrow> log w' = log w @ [Execute (handle conn) s]"
  by (auto simp: cursor_execute_def next_fault_def split: list.splits option.splits)

lemma pyodbc_connect_log:
  "pyodbc_connect cs w = (r, w') \<Longrightarrow> log w' = log w @ [Connect cs]"
  by (auto simp: pyodbc_connect_def next_fault_def split: list.splits option.splits)

lemma conn_commit_log:
  "conn_commit conn w = (r, w') \<Longrightarrow> log w' = log w @ [Commit (handle conn)]"
  by (auto simp: conn_commit_def next_fault_def split: list.splits option.splits)

lemma conn_close_log: "log (conn_close conn w) = log w @ [Close (handle conn)]"
  by (simp add: conn_close_def)

lemma get_db_connection_log:
  "get_db_connection h key w = (r, w') \<Longrightarrow>
   (\<exists>cs. log w' = log w @ [Connect cs]) \<or> w' = w"
  by (auto simp: get_db_connection_def split: option.splits dest: pyodbc_connect_log)

lemma fetchall_raw_world: "fetchall_raw h t conn w = (r, w') \<Longrightarrow> w' = w"
  by (auto simp: fetchall_raw_def split: sum.splits)

lemma registry_database_world: "registry_database h key w = (r, w') \<Longrightarrow> w' = w"
  by (auto simp: registry_database_def split: option.splits)

lemma registry_database_default:
  "registry_database h ''default'' w = (Inr (fmt (getenv h ''DEV_DATABASE'')), w)"
  by (simp add: registry_database_def DB_CONFIGS_def)


lemma registry_database_known:
  "map_of (DB_CONFIGS (getenv h)) key = Some config \<Longrightarrow>
   registry_database h key w = (Inr (fmt (database config)), w)"
  by (simp add: registry_database_def)


section \<open>The connection resolver\<close>

text \<open>
  Claim C9. For a key of the registry, \<open>get_db_connection\<close> makes one driver call, a
  connect whose connection string is built from exactly the server, database, user name,
  password and driver stored for that key, and the connection it returns talks to that
  database. For a key that is not in the registry it raises the configuration error and
  the world is untouched: no connection attempt is made.
\<close>

theorem get_db_connection_registry:
  "(\<forall>config. map_of (DB_CONFIGS (getenv h)) key = Some config \<longrightarrow>
      log (snd (get_db_connection h key w)) =
        log w @ [Connect (''DRIVER='' @ driver config @ '';SERVER='' @ fmt (server config) @
                          '';DATABASE='' @ fmt (database config) @ '';UID='' @
                          fmt (username config) @ '';PWD='' @ fmt (password config))] \<and>
      (\<forall>conn. fst (get_db_connection h key w) = Inr conn \<longrightarrow>
         target conn = conn_string config \<and>
         view (snd (get_db_connection h key w)) conn = store w (conn_string config))) \<and>
   (map_of (DB_CONFIGS (getenv h)) key = None \<longrightarrow>
      get_db_connection h key w =
        (Inl (ValueError (''Base de datos '' @ quoted key @ '' no configurada'')), w))"
  by (auto simp: get_db_connection_def pyodbc_connect_def next_fault_def conn_string_def view_def
      split: list.splits option.splits)

theorem get_db_connection_registry_witness:
  "log (snd (get_db_connection example_host ''INTEGRACION_CW_20_DEV'' (example_world []))) =
     [Connect ''DRIVER={ODBC Driver 17 for SQL Server};SERVER=srv;DATABASE=INTEGRACION_CW_20_DEV;UID=u;PWD=p''] \<and>
   get_db_connection example_host ''reports'' (example_world []) =
     (Inl (ValueError (''Base de datos '' @ quoted ''reports'' @ '' no configurada'')),
      example_world [])"
  using get_db_connection_registry [of example_host "''INTEGRACION_CW_20_DEV''" "example_world []"]
    get_db_connection_registry [of example_host "''reports''" "example_world []"]
  by (simp add: DB_CONFIGS_def example_host_def example_env_def example_world_def odbc_driver_def)

section \<open>An unknown database key\<close>

text \<open>
  Claim C5, as stated, at a concrete input: \<open>get_table_structure\<close> called with the
  key \<open>reports\<close>, which is not in the registry, returns normally. The configuration
  error does not leave the operation; it is the content of the error reply.
\<close>

theorem unknown_key_counterexample:
  "get_table_structure example_host ''users'' ''reports'' (example_world []) =
     (Inr (Cross_mark,
           Error_table_structure
             (ValueError (''Base de datos '' @ quoted ''reports'' @ '' no configurada''))),
      example_world [])"
  by (simp add: get_table_structure_def get_db_connection_def DB_CONFIGS_def example_host_def)

text \<open>
  Claim C5, amended. In each operation that hands the caller's database key to the
  connection resolver (\<open>get_table_structure\<close>, \<open>list_tables\<close>,
  \<open>get_multiple_table_structures\<close> with at least one table name, \<open>test_query\<close>
  with a query that has the placeholder), the configuration error of an unknown key is
  caught by the operation's own \<open>except\<close> clause and returned as the reply with the
  cross mark; nothing is raised to the caller and no connection attempt is made.
\<close>

theorem unknown_key_is_caught:
  "map_of (DB_CONFIGS (getenv h)) key = None \<Longrightarrow>
   get_table_structure h table_name key w =
     (Inr (Cross_mark,
           Error_table_structure
             (ValueError (''Base de datos '' @ quoted key @ '' no configurada''))), w) \<and>
   list_tables h schema key w =
     (Inr (Cross_mark,
           Error_list_tables
             (ValueError (''Base de datos '' @ quoted key @ '' no configurada''))), w) \<and>
   (table_names \<noteq> [] \<longrightarrow>
    get_multiple_table_structures h table_names key w =
      (Inr (Cross_mark,
            Error_multiple_structures
              (ValueError (''Base de datos '' @ quoted key @ '' no configurada''))), w)) \<and>
   (contains placeholder query \<longrightarrow>
    test_query h query business_unit key w =
      (Inr (Cross_mark,
            Error_test_query
              (ValueError (''Base de datos '' @ quoted key @ '' no configurada''))), w))"
  by (simp add: get_table_structure_def list_tables_def get_multiple_table_structures_def
      test_query_def get_unknown_connection)

theorem unknown_key_is_caught_witness:
  "list_tables example_host ''dbo'' ''reports'' (example_world []) =
     (Inr (Cross_mark,
           Error_list_tables
             (ValueError (''Base de datos '' @ quoted ''reports'' @ '' no configurada''))),
      example_world []) \<and>
   get_multiple_table_structures example_host [''users''] ''reports'' (example_world []) =
      (Inr (Cross_mark,
            Error_multiple_structures
              (ValueError (''Base de datos '' @ quoted ''reports'' @ '' no configurada''))),
       example_world []) \<and>
   test_query example_host ''SELECT @business_unit'' ''BU1'' ''reports'' (example_world []) =
      (Inr (Cross_mark,
            Error_test_query
              (ValueError (''Base de datos '' @ quoted ''reports'' @ '' no configurada''))),
       example_world [])"
  using unknown_key_is_caught [of example_host "''reports''" "''users''" "example_world []"
      "''dbo''" "[''users'']" "''SELECT @business_unit''" "''BU1''"]
  by (simp add: DB_CONFIGS_def example_host_def placeholder_def)


section \<open>The placeholder check of report creation\<close>


lemma create_item_without_placeholder:
  assumes "rd_query rd = Some q" and "\<not> contains placeholder q"
  shows "\<exists>failure. create_item h conn i rd (s, f, t) w = ((s, f @ [failure], t), w) \<and>
           fr_index failure = i"
  using assms
  by (cases "rd_report_prefix rd")
     (auto simp: create_item_def create_item_try_def item_def Let_def missing_report_fields_def)

lemma no_missing_report_fields:
  "missing_report_fields rd = [] \<Longrightarrow>
   \<exists>p en es q. rd_report_prefix rd = Some p \<and> rd_report_description_en rd = Some en \<and>
     rd_report_description_es rd = Some es \<and> rd_query rd = Some q"
  by (cases "rd_report_prefix rd"; cases "rd_report_description_en rd";
      cases "rd_report_description_es rd"; cases "rd_query rd")
     (simp_all add: missing_report_fields_def)

lemma create_item_try_events:
  assumes "create_item_try h conn i rd w = (r, w')"
  shows "log w' = log w \<or>
     (\<exists>args. log w' = log w @ [Execute (handle conn) (Sp_call args)] \<and>
        sp_params_config args = json_dumps (params_config (rd_additional_params rd)) \<and>
        query_has_placeholder rd)"
proof (cases "missing_report_fields rd = []")
  case False
  with assms show ?thesis
    by (simp add: create_item_try_def Let_def)
next
  case True
  then obtain p en es q where
    fields: "rd_report_prefix rd = Some p" "rd_report_description_en rd = Some en"
      "rd_report_description_es rd = Some es" "rd_query rd = Some q"
    using no_missing_report_fields by blast
  show ?thesis
  proof (cases "contains placeholder q")
    case False
    with assms True fields show ?thesis
      by (simp add: create_item_try_def Let_def item_def)
  next
    case c: True
    then have "query_has_placeholder rd"
      using fields by (simp add: query_has_placeholder_def)
    with assms True fields c show ?thesis
      by (auto simp: create_item_try_def Let_def item_def and_then_def
          split: prod.splits sum.splits
          dest!: cursor_execute_log registry_database_world)
  qed
qed

lemma create_item_events:
  assumes "create_item h conn i rd st w = (st', w')"
  shows "log w' = log w \<or>
     (\<exists>args. log w' = log w @ [Execute (handle conn) (Sp_call args)] \<and>
        sp_params_config args = json_dumps (params_config (rd_additional_params rd)) \<and>
        query_has_placeholder rd)"
proof -
  obtain r where "create_item_try h conn i rd w = (r, w')"
    using assms
    by (cases "create_item_try h conn i rd w")
       (auto simp: create_item_def split: prod.splits sum.splits)
  then show ?thesis by (rule create_item_try_events)
qed

lemma create_item_log:
  "create_item h conn i rd st w = (st', w') \<Longrightarrow>
   \<exists>evs. log w' = log w @ evs \<and>
     length (executed evs) \<le> (if query_has_placeholder rd then 1 else 0)"
  by (drule create_item_events) (auto intro: exI [of _ "[]"])

lemma create_loop_log:
  "create_loop h conn i rds st w = (st', w') \<Longrightarrow>
   \<exists>evs. log w' = log w @ evs \<and>
     length (executed evs) \<le> length (filter query_has_placeholder rds)"
proof (induction rds arbitrary: i st w)
  case Nil
  then show ?case by simp
next
  case (Cons rd rds)
  obtain st1 w1 where step: "create_item h conn i rd st w = (st1, w1)"
    by (cases "create_item h conn i rd st w")
  with Cons.prems have rest: "create_loop h conn (Suc i) rds st1 w1 = (st', w')"
    by simp
  from create_item_log [OF step] obtain e1 where
    e1: "log w1 = log w @ e1" "length (executed e1) \<le> (if query_has_placeholder rd then 1 else 0)"
    by blast
  from Cons.IH [OF rest] obtain e2 where
    e2: "log w' = log w1 @ e2" "length (executed e2) \<le> length (filter query_has_placeholder rds)"
    by blast
  have "log w' = log w @ (e1 @ e2)"
    using e1(1) e2(1) by simp
  moreover have "length (executed (e1 @ e2)) \<le> length (filter query_has_placeholder (rd # rds))"
    using e1(2) e2(2) by (simp add: executed_append split: if_splits)
  ultimately show ?case by blast
qed

lemma bulk_create_reports_log:
  "length (executed (events_since w (snd (bulk_create_reports h reports_data w)))) \<le>
     length (filter query_has_placeholder reports_data)"
proof (cases "reports_data = []")
  case True
  then show ?thesis
    by (simp add: bulk_create_reports_def events_since_def)
next
  case False
  obtain r0 w0 where conn: "get_db_connection h ''default'' w = (r0, w0)"
    by (cases "get_db_connection h ''default'' w")
  then have log0: "log w0 = log w @ [Connect (default_target h)]"
    by (simp add: get_default_connection pyodbc_connect_log)
  show ?thesis
  proof (cases r0)
    case (Inl e)
    with False conn log0 show ?thesis
      by (simp add: bulk_create_reports_def events_since_def)
  next
    case (Inr c)
    obtain st1 w1 where loop: "create_loop h c 1 reports_data ([], [], 0) w0 = (st1, w1)"
      by (cases "create_loop h c 1 reports_data ([], [], 0) w0")
    from create_loop_log [OF loop] obtain evs where
      evs: "log w1 = log w0 @ evs"
        "length (executed evs) \<le> length (filter query_has_placeholder reports_data)"
      by blast
    obtain r2 w2 where commit: "conn_commit c w1 = (r2, w2)"
      by (cases "conn_commit c w1")
    then have log2: "log w2 = log w1 @ [Commit (handle c)]"
      by (rule conn_commit_log)
    obtain s1 f1 t1 where st1: "st1 = (s1, f1, t1)"
      by (cases st1)
    have "\<exists>tl. log (snd (bulk_create_reports h reports_data w)) =
             log w @ [Connect (default_target h)] @ evs @ tl \<and> executed tl = []"
      using False conn Inr loop st1 commit log0 evs(1) log2
      by (cases r2) (simp_all add: bulk_create_reports_def conn_close_log)
    then obtain tl where
      "log (snd (bulk_create_reports h reports_data w)) =
         log w @ [Connect (default_target h)] @ evs @ tl" and "executed tl = []"
      by blast
    then have "executed (events_since w (snd (bulk_create_reports h reports_data w))) = executed evs"
      by (simp add: events_since_def executed_append)
    with evs(2) show ?thesis by simp
  qed
qed

text \<open>
  Claim C2. When the query text does not contain \<open>@business_unit\<close>,
  \<open>create_report\<close> returns the warning and the world is untouched: no connection is
  opened, no statement executed. In \<open>bulk_create_reports\<close> the turn of the loop for
  such an item leaves the world untouched as well and appends one entry, with the
  item's index, to the failed list; and a whole batch never executes more statements
  than it has items whose query has the placeholder, whatever the driver does.
\<close>

theorem no_placeholder_no_database_call:
  "(\<not> contains placeholder query \<longrightarrow>
      create_report h report_prefix report_description_en report_description_es query
        additional_params is_detail has_detail action_column detail_prefix detail_mode
        open_another_tab type_resource columns_to_render default_for_all database_key w =
      (Inr (Warning_mark, Create_needs_placeholder), w)) \<and>
   (rd_query rd = Some q \<and> \<not> contains placeholder q \<longrightarrow>
      (\<exists>failure. create_item h conn i rd (s, f, t) w = ((s, f @ [failure], t), w) \<and>
         fr_index failure = i)) \<and>
   length (executed (events_since w (snd (bulk_create_reports h reports_data w)))) \<le>
     length (filter query_has_placeholder reports_data)"
  using create_item_without_placeholder [of rd q h conn i s f t w]
    bulk_create_reports_log [of w h reports_data]
  by (simp add: create_report_def)

theorem no_placeholder_no_database_call_witness:
  "create_report example_host ''sales'' ''Sales'' ''Ventas'' ''SELECT * FROM Y'' None 0 None
     None None None None ''table'' None 0 None (example_world []) =
     (Inr (Warning_mark, Create_needs_placeholder), example_world []) \<and>
   (\<exists>failure.
      create_item example_host \<lparr>handle = 0, target = ''db''\<rparr> 2
        (example_report (Some ''SELECT * FROM Y'')) ([], [], 0) (example_world []) =
        (([], [failure], 0), example_world []) \<and> fr_index failure = 2)"
  using no_placeholder_no_database_call [of "''SELECT * FROM Y''" example_host "''sales''"
      "''Sales''" "''Ventas''" None 0 None None None None None "''table''" None 0 None
      "example_world []" "example_report (Some ''SELECT * FROM Y'')" "''SELECT * FROM Y''"
      "\<lparr>handle = 0, target = ''db''\<rparr>" 2 "[]" "[]" 0 "[]"]
  by (simp add: placeholder_def example_report_def)

section \<open>The test query\<close>

lemma starts_with_append:
  "starts_with n (a @ b) \<longleftrightarrow>
     (if length n \<le> length a then starts_with n a
      else take (length a) n = a \<and> starts_with (drop (length a) n) b)"
proof (induction n a rule: starts_with.induct)
  case (1 t)
  then show ?case by simp
next
  case (2 n ns)
  then show ?case by simp
next
  case (3 n ns c cs)
  then show ?case by auto
qed


lemma starts_with_self: "starts_with n (n @ post)"
  by (induction n) auto

lemma contains_Nil [simp]: "contains [] t"
  by (cases t) auto

lemma replace_from_none:
  "\<not> contains old t \<Longrightarrow> replace_from k old new t = t"
  by (induction k old new t rule: replace_from.induct) auto

lemma placeholder_no_border:
  "0 < k \<Longrightarrow> k < 14 \<Longrightarrow> \<not> starts_with (drop k placeholder) (placeholder @ post)"
proof -
  assume "0 < k" "k < 14"
  then have "k \<in> {1,2,3,4,5,6,7,8,9,10,11,12,13}" by (simp del: One_nat_def) arith
  then show ?thesis
    by (auto simp: placeholder_def)
qed

lemma no_straddle:
  assumes "\<not> starts_with placeholder (c # cs)"
  shows "\<not> starts_with placeholder ((c # cs) @ placeholder @ post)"
proof
  assume a: "starts_with placeholder ((c # cs) @ placeholder @ post)"
  show False
  proof (cases "length placeholder \<le> length (c # cs)")
    case True
    with a assms show False
      using starts_with_append [of placeholder "c # cs" "placeholder @ post"] by simp
  next
    case False
    with a have "starts_with (drop (length (c # cs)) placeholder) (placeholder @ post)"
      using starts_with_append [of placeholder "c # cs" "placeholder @ post"] by simp
    moreover have "0 < length (c # cs)" "length (c # cs) < 14"
      using False by (simp_all add: placeholder_def)
    ultimately show False
      using placeholder_no_border by blast
  qed
qed

lemma replace_from_first:
  "\<not> contains placeholder pre \<Longrightarrow> length (pre @ placeholder @ post) \<le> k \<Longrightarrow>
   replace_from k placeholder new (pre @ placeholder @ post) =
     pre @ new @ replace_from (k - length pre - 1) placeholder new post"
proof (induction pre arbitrary: k)
  case Nil
  then obtain k' where k: "k = Suc k'" by (cases k) (auto simp: placeholder_def)
  have "starts_with placeholder (CHR ''@'' # ''business_unit'' @ post)"
    using starts_with_self [of placeholder post] by (simp add: placeholder_def)
  then show ?case
    using k by (simp add: placeholder_def)
next
  case (Cons c cs)
  then obtain k' where k: "k = Suc k'" by (cases k) auto
  from Cons.prems(1) have ns: "\<not> starts_with placeholder (c # cs)" and nc: "\<not> contains placeholder cs"
    by auto
  have "\<not> starts_with placeholder (c # cs @ placeholder @ post)"
    using no_straddle [OF ns, of post] by simp
  then show ?case
    using k Cons.IH [OF nc, of k'] Cons.prems(2) by simp
qed

lemma replace_from_Nil [simp]: "replace_from k old new [] = []"
  by (cases k) simp_all

lemma replace_from_fuel:
  "length t \<le> k \<Longrightarrow> length t \<le> k' \<Longrightarrow> old \<noteq> [] \<Longrightarrow>
   replace_from k old new t = replace_from k' old new t"
proof (induction k arbitrary: k' t)
  case 0
  then show ?case by simp
next
  case (Suc k)
  show ?case
  proof (cases t)
    case Nil
    then show ?thesis by simp
  next
    case (Cons c cs)
    with Suc.prems obtain k'' where k': "k' = Suc k''" by (cases k') auto
    obtain x xs where old: "old = x # xs" using Suc.prems(3) by (cases old) auto
    have "replace_from k old new (drop (length old) (c # cs)) =
          replace_from k'' old new (drop (length old) (c # cs))"
      using Suc.prems Cons k' old by (intro Suc.IH) auto
    moreover have "replace_from k old new cs = replace_from k'' old new cs"
      using Suc.prems Cons k' by (intro Suc.IH) auto
    ultimately show ?thesis
      using Cons k' by simp
  qed
qed

lemma replace_none: "\<not> contains placeholder t \<Longrightarrow> replace placeholder new t = t"
  by (simp add: replace_def replace_from_none)

lemma replace_first:
  assumes "\<not> contains placeholder pre"
  shows "replace placeholder new (pre @ placeholder @ post) =
           pre @ new @ replace placeholder new post"
proof -
  have ne: "placeholder \<noteq> []" by (simp add: placeholder_def)
  have "replace placeholder new (pre @ placeholder @ post) =
        pre @ new @ replace_from (length (pre @ placeholder @ post) - length pre - 1)
                      placeholder new post"
    using replace_from_first [OF assms, of post "length (pre @ placeholder @ post)" new] ne
    by (simp add: replace_def)
  also have "replace_from (length (pre @ placeholder @ post) - length pre - 1)
               placeholder new post = replace_from (length post) placeholder new post"
    by (rule replace_from_fuel) (simp_all add: placeholder_def)
  finally show ?thesis
    using ne by (simp add: replace_def)
qed


lemma test_query_statements:
  "set (executed (events_since w (snd (test_query h query business_unit key w)))) \<subseteq>
     {Raw_query (replace placeholder (quoted business_unit) query)}"
  by (auto simp: test_query_def and_then_def catch_def Let_def events_since_def
      executed_append conn_close_log
      split: prod.splits sum.splits if_splits
      dest!: get_db_connection_log cursor_execute_log fetchall_raw_world
        registry_database_world)

lemma test_query_run:
  assumes "contains placeholder query" and "faults w = []"
    and "map_of (DB_CONFIGS (getenv h)) key = Some config"
  shows "executed (events_since w (snd (test_query h query business_unit key w))) =
           [Raw_query (replace placeholder (quoted business_unit) query)]"
    and "sql_raw h (replace placeholder (quoted business_unit) query)
           (store w (conn_string config)) = Inr (columns, rows) \<Longrightarrow>
         fst (test_query h query business_unit key w) =
           Inr (Check_mark,
                if rows = [] then Query_no_results (fmt (database config))
                else Query_sample (fmt (database config)) columns (take 5 rows) (length rows))"
  using assms
  by (auto simp: test_query_def get_db_connection_def connect_ok execute_ok
      fetchall_raw_def registry_database_def events_since_def conn_close_def view_def
      Let_def split: sum.splits)

text \<open>
  Claim C4. A query without \<open>@business_unit\<close> gets the warning reply (a returned
  value, not an exception) and the world is untouched, so no connection is opened.
  Otherwise the only statement \<open>test_query\<close> ever sends is the query text in which
  the placeholder is replaced by the business unit between single quotes, sent as text
  with no bound parameter; with a registry key and a driver that does not fail it is
  sent exactly once. When the engine answers with rows, the reply has the check mark
  and shows the first five rows at most and the number of all rows; when it answers
  with no row, the reply says so. The last two parts pin the replacement down: text
  without the placeholder is left as it is, and the first occurrence is replaced and
  the replacement goes on behind it, so every occurrence is replaced.
\<close>

theorem test_query_substitutes_placeholder:
  "(\<not> contains placeholder query \<longrightarrow>
      test_query h query business_unit key w = (Inr (Warning_mark, Test_needs_placeholder), w)) \<and>
   set (executed (events_since w (snd (test_query h query business_unit key w)))) \<subseteq>
     {Raw_query (replace placeholder (sq # business_unit @ [sq]) query)} \<and>
   (contains placeholder query \<and> faults w = [] \<and>
    map_of (DB_CONFIGS (getenv h)) key = Some config \<longrightarrow>
      executed (events_since w (snd (test_query h query business_unit key w))) =
        [Raw_query (replace placeholder (sq # business_unit @ [sq]) query)] \<and>
      (sql_raw h (replace placeholder (sq # business_unit @ [sq]) query)
         (store w (conn_string config)) = Inr (columns, rows) \<longrightarrow>
       fst (test_query h query business_unit key w) =
         Inr (Check_mark,
              if rows = [] then Query_no_results (fmt (database config))
              else Query_sample (fmt (database config)) columns (take 5 rows) (length rows)) \<and>
       length (take 5 rows) \<le> 5)) \<and>
   (\<not> contains placeholder pre \<longrightarrow>
      replace placeholder new (pre @ placeholder @ post) =
        pre @ new @ replace placeholder new post) \<and>
   (\<not> contains placeholder post \<longrightarrow> replace placeholder new post = post)"
  using test_query_statements [where w = w and h = h and query = query
      and business_unit = business_unit and key = key]
    test_query_run(1) [where query = query and w = w and h = h and key = key
      and config = config and business_unit = business_unit]
    test_query_run(2) [where query = query and w = w and h = h and key = key
      and config = config and business_unit = business_unit and columns = columns
      and rows = rows]
    replace_first [where pre = pre and new = new and post = post]
    replace_none [where t = post and new = new]
  by (simp add: test_query_def quoted_def)

theorem test_query_substitutes_placeholder_witness:
  "test_query example_host ''SELECT 1'' ''BU1'' ''default'' (example_world []) =
     (Inr (Warning_mark, Test_needs_placeholder), example_world []) \<and>
   executed (events_since (example_world [])
     (snd (test_query example_host ''SELECT n FROM t WHERE bu = @business_unit'' ''BU1''
        ''default'' (example_world [])))) =
     [Raw_query (''SELECT n FROM t WHERE bu = '' @ [sq] @ ''BU1'' @ [sq])] \<and>
   fst (test_query example_host ''SELECT n FROM t WHERE bu = @business_unit'' ''BU1''
        ''default'' (example_world [])) =
     Inr (Check_mark,
          Query_sample ''dev'' [''n'']
            [[SqlInt 1], [SqlInt 2], [SqlInt 3], [SqlInt 4], [SqlInt 5]] 7)"
proof -
  let ?q = "''SELECT n FROM t WHERE bu = @business_unit''"
  let ?c = "\<lparr>server = Some ''srv'', database = Some ''dev'', username = Some ''u'',
             password = Some ''p'', driver = odbc_driver\<rparr>"
  have c: "contains placeholder ?q"
    by (simp add: placeholder_def)
  have n: "\<not> contains placeholder ''SELECT 1''"
    by (simp add: placeholder_def)
  have n2: "\<not> contains placeholder ''SELECT n FROM t WHERE bu = ''"
    by (simp add: placeholder_def)
  have n3: "\<not> contains placeholder []"
    by (simp add: placeholder_def)
  have f: "faults (example_world []) = []"
    by (simp add: example_world_def)
  have d: "map_of (DB_CONFIGS (getenv example_host)) ''default'' = Some ?c"
    by (simp add: DB_CONFIGS_def example_host_def example_env_def)
  have raw: "sql_raw example_host t (store (example_world []) (conn_string ?c)) =
      Inr ([''n''], example_rows)" for t
    by (simp add: example_host_def)
  have q: "?q = ''SELECT n FROM t WHERE bu = '' @ placeholder @ []"
    by (simp add: placeholder_def)
  have r: "replace placeholder (sq # ''BU1'' @ [sq]) ?q =
      ''SELECT n FROM t WHERE bu = '' @ [sq] @ ''BU1'' @ [sq]"
    using test_query_substitutes_placeholder
      [where pre = "''SELECT n FROM t WHERE bu = ''" and new = "sq # ''BU1'' @ [sq]"
        and post = "[]"] n2 n3
    unfolding q by simp
  note T = test_query_substitutes_placeholder
      [where query = ?q and h = example_host and business_unit = "''BU1''"
        and key = "''default''" and w = "example_world []" and config = ?c
        and columns = "[''n'']" and rows = example_rows]
  have a1: "test_query example_host ''SELECT 1'' ''BU1'' ''default'' (example_world []) =
     (Inr (Warning_mark, Test_needs_placeholder), example_world [])"
    using test_query_substitutes_placeholder [where query = "''SELECT 1''"] n by blast
  have a2: "executed (events_since (example_world [])
     (snd (test_query example_host ?q ''BU1'' ''default'' (example_world [])))) =
     [Raw_query (''SELECT n FROM t WHERE bu = '' @ [sq] @ ''BU1'' @ [sq])]"
    using T c f d unfolding r by blast
  have a3: "fst (test_query example_host ?q ''BU1'' ''default'' (example_world [])) =
     Inr (Check_mark,
          if example_rows = [] then Query_no_results (fmt (database ?c))
          else Query_sample (fmt (database ?c)) [''n''] (take 5 example_rows)
                 (length example_rows))"
    using T c f d raw unfolding r by blast
  show ?thesis
    using a1 a2 a3 by (simp add: example_rows_def)
qed

section \<open>Connections left open\<close>

lemma assign_role_not_found:
  assumes "faults w = []"
    and "select_roles h (store w (default_target h)) business_unit
           (''%'' @ role_description @ ''%'') = []"
  shows "assign_report_to_role h report_prefix business_unit role_description application_type
           order custom_tag sales_office center_logistical w =
         (Inr (Cross_mark, Role_not_found role_description business_unit),
          w\<lparr>log := log w @ [Connect (default_target h),
                 Execute (opened w) (Role_query business_unit (''%'' @ role_description @ ''%''))],
            sessions := (sessions w)(opened w := store w (default_target h)),
            opened := Suc (opened w), open_conns := open_conns w @ [opened w]\<rparr>)"
  using assms
  by (simp add: assign_report_to_role_def get_default_connection connect_ok execute_ok view_def)

lemma assign_already_assigned:
  assumes "faults w = []"
    and "select_roles h (store w (default_target h)) business_unit
           (''%'' @ role_description @ ''%'') = role # others"
    and "0 < count_assigned (store w (default_target h)) business_unit report_prefix (dr_code role)"
  shows "assign_report_to_role h report_prefix business_unit role_description application_type
           order custom_tag sales_office center_logistical w =
         (Inr (Warning_mark, Already_assigned report_prefix (dr_code role) business_unit),
          w\<lparr>log := log w @ [Connect (default_target h),
                 Execute (opened w) (Role_query business_unit (''%'' @ role_description @ ''%'')),
                 Execute (opened w) (Check_query business_unit report_prefix (dr_code role))],
            sessions := (sessions w)(opened w := store w (default_target h)),
            opened := Suc (opened w), open_conns := open_conns w @ [opened w]\<rparr>)"
  using assms
  by (simp add: assign_report_to_role_def get_default_connection connect_ok execute_ok view_def
      Let_def)

lemma table_not_found:
  assumes "faults w = []"
    and "map_of (DB_CONFIGS (getenv h)) key = Some config"
    and "select_columns (store w (conn_string config)) table_name = []"
  shows "get_table_structure h table_name key w =
         (Inr (Warning_mark, Table_not_found table_name (fmt (database config))),
          w\<lparr>log := log w @ [Connect (conn_string config),
                 Execute (opened w) (Columns_query table_name)],
            sessions := (sessions w)(opened w := store w (conn_string config)),
            opened := Suc (opened w), open_conns := open_conns w @ [opened w]\<rparr>)"
  using assms
  by (simp add: get_table_structure_def get_db_connection_def connect_ok execute_ok view_def
      registry_database_def)

lemma assign_closes_iff:
  "list_ex is_close (events_since w (snd (assign_report_to_role h report_prefix business_unit
      role_description application_type order custom_tag sales_office center_logistical w))) \<longleftrightarrow>
   (\<exists>g row desc. fst (assign_report_to_role h report_prefix business_unit
      role_description application_type order custom_tag sales_office center_logistical w) =
      Inr (g, Report_assigned row desc))"
  by (auto simp: assign_report_to_role_def and_then_def catch_def Let_def events_since_def
      conn_close_log
      split: prod.splits sum.splits if_splits list.splits
      dest!: get_db_connection_log cursor_execute_log conn_commit_log)

lemma structure_closes_iff:
  "list_ex is_close (events_since w (snd (get_table_structure h table_name key w))) \<longleftrightarrow>
   (\<exists>name ls. fst (get_table_structure h table_name key w) =
      Inr (Headline, Table_structure table_name name ls))"
  by (auto simp: get_table_structure_def and_then_def catch_def Let_def events_since_def
      conn_close_log
      split: prod.splits sum.splits if_splits list.splits
      dest!: get_db_connection_log cursor_execute_log registry_database_world)


text \<open>
  Claim C10. With a driver that does not fail, \<open>assign_report_to_role\<close> returns
  with its connection still open both when no role matches and when the assignment
  already exists, and \<open>get_table_structure\<close> returns with its connection still
  open when the table has no column: the handle the call was given is in the set of
  open connections afterwards and the call has closed nothing. Whatever the driver
  does, each of the two operations closes a connection exactly when it returns its
  success reply, so the connection is closed on the full-success path only.
\<close>

theorem early_returns_leave_connection_open:
  fixes h :: host and w :: world
    and report_prefix business_unit role_description table_name key :: string
    and application_type custom_tag sales_office center_logistical :: "string option"
    and order :: "int option"
  defines "assign \<equiv> assign_report_to_role h report_prefix business_unit role_description
     application_type order custom_tag sales_office center_logistical w"
    and "structure \<equiv> get_table_structure h table_name key w"
  shows
  "(faults w = [] \<and>
    select_roles h (store w (default_target h)) business_unit
      (''%'' @ role_description @ ''%'') = [] \<longrightarrow>
      fst assign = Inr (Cross_mark, Role_not_found role_description business_unit) \<and>
      open_conns (snd assign) = open_conns w @ [opened w] \<and>
      \<not> list_ex is_close (events_since w (snd assign))) \<and>
   (faults w = [] \<and>
    select_roles h (store w (default_target h)) business_unit
      (''%'' @ role_description @ ''%'') = role # others \<and>
    0 < count_assigned (store w (default_target h)) business_unit report_prefix (dr_code role) \<longrightarrow>
      fst assign = Inr (Warning_mark, Already_assigned report_prefix (dr_code role) business_unit) \<and>
      open_conns (snd assign) = open_conns w @ [opened w] \<and>
      \<not> list_ex is_close (events_since w (snd assign))) \<and>
   (faults w = [] \<and> map_of (DB_CONFIGS (getenv h)) key = Some config \<and>
    select_columns (store w (conn_string config)) table_name = [] \<longrightarrow>
      fst structure = Inr (Warning_mark, Table_not_found table_name (fmt (database config))) \<and>
      open_conns (snd structure) = open_conns w @ [opened w] \<and>
      \<not> list_ex is_close (events_since w (snd structure))) \<and>
   (list_ex is_close (events_since w (snd assign)) \<longleftrightarrow>
      (\<exists>g row desc. fst assign = Inr (g, Report_assigned row desc))) \<and>
   (list_ex is_close (events_since w (snd structure)) \<longleftrightarrow>
      (\<exists>name ls. fst structure = Inr (Headline, Table_structure table_name name ls)))"
proof -
  have a: "faults w = [] \<Longrightarrow>
    select_roles h (store w (default_target h)) business_unit
      (''%'' @ role_description @ ''%'') = [] \<Longrightarrow>
      fst assign = Inr (Cross_mark, Role_not_found role_description business_unit) \<and>
      open_conns (snd assign) = open_conns w @ [opened w] \<and>
      \<not> list_ex is_close (events_since w (snd assign))"
    unfolding assign_def by (simp add: assign_role_not_found events_since_def)
  have b: "faults w = [] \<Longrightarrow>
    select_roles h (store w (default_target h)) business_unit
      (''%'' @ role_description @ ''%'') = role # others \<Longrightarrow>
    0 < count_assigned (store w (default_target h)) business_unit report_prefix (dr_code role) \<Longrightarrow>
      fst assign = Inr (Warning_mark, Already_assigned report_prefix (dr_code role) business_unit) \<and>
      open_conns (snd assign) = open_conns w @ [opened w] \<and>
      \<not> list_ex is_close (events_since w (snd assign))"
    unfolding assign_def by (simp add: assign_already_assigned events_since_def)
  have c: "faults w = [] \<Longrightarrow> map_of (DB_CONFIGS (getenv h)) key = Some config \<Longrightarrow>
    select_columns (store w (conn_string config)) table_name = [] \<Longrightarrow>
      fst structure = Inr (Warning_mark, Table_not_found table_name (fmt (database config))) \<and>
      open_conns (snd structure) = open_conns w @ [opened w] \<and>
      \<not> list_ex is_close (events_since w (snd structure))"
    unfolding structure_def by (simp add: table_not_found events_since_def)
  show ?thesis
    using a b c assign_closes_iff [of w h report_prefix business_unit role_description
        application_type order custom_tag sales_office center_logistical]
      structure_closes_iff [of w h table_name key]
    unfolding assign_def structure_def by blast
qed

theorem early_returns_leave_connection_open_witness:
  "fst (assign_report_to_role example_host ''sales'' ''BU1'' ''auditor'' None None None None
          None (example_world [])) = Inr (Cross_mark, Role_not_found ''auditor'' ''BU1'') \<and>
   open_conns (snd (assign_report_to_role example_host ''sales'' ''BU1'' ''auditor'' None None
          None None None (example_world []))) = [0] \<and>
   fst (assign_report_to_role example_host ''sales'' ''BU1'' ''admin'' None None None None
          None (example_world [example_row])) =
     Inr (Warning_mark, Already_assigned ''sales'' ''ADM'' ''BU1'') \<and>
   open_conns (snd (assign_report_to_role example_host ''sales'' ''BU1'' ''admin'' None None
          None None None (example_world [example_row]))) = [0] \<and>
   fst (get_table_structure example_host ''users'' ''default'' (example_world [])) =
     Inr (Warning_mark, Table_not_found ''users'' ''dev'') \<and>
   open_conns (snd (get_table_structure example_host ''users'' ''default'' (example_world [])))
     = [0]"
proof -
  let ?c = "\<lparr>server = Some ''srv'', database = Some ''dev'', username = Some ''u'',
             password = Some ''p'', driver = odbc_driver\<rparr>"
  let ?role = "\<lparr>dr_code = ''ADM'', dr_description = ''administrador'',
          dr_application_type = Some ''sales_force'', dr_business_unit = ''BU1'',
          dr_order = None\<rparr>"
  have f: "faults (example_world rows) = []" "open_conns (example_world rows) = []"
    "opened (example_world rows) = 0" for rows
    by (simp_all add: example_world_def)
  have d: "map_of (DB_CONFIGS (getenv example_host)) ''default'' = Some ?c"
    by (simp add: DB_CONFIGS_def example_host_def example_env_def)
  have r1: "select_roles example_host (store (example_world []) (default_target example_host))
      ''BU1'' (''%'' @ ''auditor'' @ ''%'') = []"
    by (simp add: select_roles_def example_world_def example_db_def example_host_def
        example_like_def)
  have r2: "select_roles example_host
      (store (example_world [example_row]) (default_target example_host))
      ''BU1'' (''%'' @ ''admin'' @ ''%'') = ?role # []"
    by (simp add: select_roles_def example_world_def example_db_def example_host_def
        example_like_def)
  have k: "0 < count_assigned (store (example_world [example_row]) (default_target example_host))
      ''BU1'' ''sales'' (dr_code ?role)"
    by (simp add: count_assigned_def example_world_def example_db_def example_row_def
        matches_key_def)
  have t: "select_columns (store (example_world []) (conn_string ?c)) ''users'' = []"
    by (simp add: select_columns_def example_world_def example_db_def)
  show ?thesis
    using early_returns_leave_connection_open
        [where h = example_host and w = "example_world []" and business_unit = "''BU1''"
          and role_description = "''auditor''" and report_prefix = "''sales''"
          and application_type = None and order = None and custom_tag = None
          and sales_office = None and center_logistical = None
          and key = "''default''" and config = ?c and table_name = "''users''"]
      early_returns_leave_connection_open
        [where h = example_host and w = "example_world [example_row]"
          and business_unit = "''BU1''"
          and role_description = "''admin''" and report_prefix = "''sales''"
          and application_type = None and order = None and custom_tag = None
          and sales_office = None and center_logistical = None
          and role = ?role and others = "[]"]
      f d r1 r2 k t
    by simp
qed

section \<open>The database a query is attributed to\<close>







lemma create_report_ok:
  assumes "contains placeholder query" and "faults w = []"
    and "map_of (DB_CONFIGS (getenv h)) (query_database_key database_key query) = Some config"
  shows "fst (create_report h report_prefix report_description_en report_description_es query
           additional_params is_detail has_detail action_column detail_prefix detail_mode
           open_another_tab type_resource columns_to_render default_for_all database_key w) =
         Inr (Check_mark,
              Report_created
                \<lparr>cr_prefix = report_prefix,
                 cr_description_en = report_description_en,
                 cr_description_es = report_description_es,
                 cr_params = json_dumps (params_config additional_params),
                 cr_type_resource = type_resource,
                 cr_query_database = fmt (database config),
                 cr_sp_database = fmt (getenv h ''DEV_DATABASE'')\<rparr>)"
    and "events_since w (snd (create_report h report_prefix report_description_en
           report_description_es query additional_params is_detail has_detail action_column
           detail_prefix detail_mode open_another_tab type_resource columns_to_render
           default_for_all database_key w)) =
         [Connect (default_target h),
          Execute (opened w)
            (Sp_call
              \<lparr>sp_report_prefix = report_prefix,
               sp_report_description = report_description_en,
               sp_report_description_es = report_description_es,
               sp_query = query,
               sp_params_config = json_dumps (params_config additional_params),
               sp_is_detail = is_detail,
               sp_hasDetail = has_detail,
               sp_actionColumn = action_column,
               sp_detail_prefix = detail_prefix,
               sp_detail_mode = detail_mode,
               sp_open_another_tab = open_another_tab,
               sp_type_resource = type_resource,
               sp_columns_to_render = columns_to_render,
               sp_default_for_all = default_for_all\<rparr>),
          Commit (opened w), Close (opened w)]"
  using assms
  by (simp_all add: create_report_def Let_def get_default_connection connect_ok execute_ok
      commit_ok conn_close_def registry_database_known registry_database_default
      events_since_def)






section \<open>The parameter-type map\<close>

lemma map_of_dict_update:
  "map_of (dict_update d ps) k =
     (case map_of (rev ps) k of Some v \<Rightarrow> Some v | None \<Rightarrow> map_of d k)"
proof (induction ps arbitrary: d)
  case Nil
  then show ?case by (simp add: dict_update_def)
next
  case (Cons p ps)
  obtain k0 v0 where p: "p = (k0, v0)" by (cases p)
  have "dict_update d (p # ps) = dict_update (AList.update k0 v0 d) ps"
    by (simp add: dict_update_def p)
  then show ?case
    using Cons.IH [of "AList.update k0 v0 d"]
    by (auto simp: p update_conv' map_add_def split: option.splits)
qed

lemma params_config_business_unit:
  "map_of (params_config additional_params) ''business_unit'' =
     (case additional_params of
        None \<Rightarrow> Some ''NVARCHAR(20)''
      | Some ps \<Rightarrow>
          (case map_of (rev ps) ''business_unit'' of
             None \<Rightarrow> Some ''NVARCHAR(20)''
           | Some v \<Rightarrow> Some v))"
  by (auto simp: params_config_def map_of_dict_update split: option.splits)

lemma params_config_present:
  "\<exists>v. map_of (params_config additional_params) ''business_unit'' = Some v"
  by (simp add: params_config_business_unit split: option.splits)

lemma params_config_fixed:
  assumes "\<forall>ps. additional_params = Some ps \<longrightarrow> ''business_unit'' \<notin> fst ` set ps"
  shows "map_of (params_config additional_params) ''business_unit'' = Some ''NVARCHAR(20)''"
proof (cases additional_params)
  case None
  then show ?thesis by (simp add: params_config_business_unit)
next
  case (Some ps)
  with assms have "''business_unit'' \<notin> fst ` set (rev ps)" by simp
  then have "map_of (rev ps) ''business_unit'' = None"
    by (simp add: map_of_eq_None_iff)
  with Some show ?thesis by (simp add: params_config_business_unit)
qed

lemma params_config_override:
  assumes "distinct (map fst ps)" and "(''business_unit'', v) \<in> set ps"
  shows "map_of (params_config (Some ps)) ''business_unit'' = Some v"
proof -
  have "distinct (map fst (rev ps))" using assms(1) by (simp add: rev_map [symmetric])
  moreover have "(''business_unit'', v) \<in> set (rev ps)" using assms(2) by simp
  ultimately have "map_of (rev ps) ''business_unit'' = Some v"
    by (rule map_of_is_SomeI)
  then show ?thesis by (simp add: params_config_business_unit)
qed

lemma create_report_sp_params:
  "Sp_call args \<in> set (executed (events_since w
      (snd (create_report h report_prefix report_description_en report_description_es query
         additional_params is_detail has_detail action_column detail_prefix detail_mode
         open_another_tab type_resource columns_to_render default_for_all database_key w)))) \<Longrightarrow>
   sp_params_config args = json_dumps (params_config additional_params)"
  by (auto simp: create_report_def and_then_def catch_def Let_def events_since_def
      conn_close_log
      split: prod.splits sum.splits if_splits
      dest!: get_db_connection_log cursor_execute_log conn_commit_log registry_database_world)


lemma create_item_sp_params:
  assumes "Sp_call args \<in> set (executed (events_since w (snd (create_item h conn i rd st w))))"
  shows "sp_params_config args = json_dumps (params_config (rd_additional_params rd))"
proof -
  obtain st' w' where s: "create_item h conn i rd st w = (st', w')"
    by (cases "create_item h conn i rd st w")
  from create_item_events [OF s] assms s show ?thesis
    by (auto simp: events_since_def)
qed

text \<open>
  Claim C6, as stated, at a concrete input: \<open>create_report\<close> called with
  \<open>additional_params = {"business_unit": "INT"}\<close>. The merged map gives
  \<open>business_unit\<close> the caller's type \<open>INT\<close>, not \<open>NVARCHAR(20)\<close>, and that is the
  JSON text the stored procedure receives.
\<close>

theorem business_unit_type_counterexample:
  "map_of (params_config (Some [(''business_unit'', ''INT'')])) ''business_unit'' = Some ''INT'' \<and>
   executed (events_since (example_world [])
     (snd (create_report example_host ''sales'' ''Sales'' ''Ventas''
        ''SELECT * FROM Y WHERE x=@business_unit'' (Some [(''business_unit'', ''INT'')])
        0 None None None None None ''table'' None 0 None (example_world [])))) =
     [Sp_call
        \<lparr>sp_report_prefix = ''sales'', sp_report_description = ''Sales'',
         sp_report_description_es = ''Ventas'',
         sp_query = ''SELECT * FROM Y WHERE x=@business_unit'',
         sp_params_config =
           [CHR ''{'', CHR 0x22] @ ''business_unit'' @ [CHR 0x22] @ '': '' @
           [CHR 0x22] @ ''INT'' @ [CHR 0x22, CHR ''}''],
         sp_is_detail = 0, sp_hasDetail = None, sp_actionColumn = None,
         sp_detail_prefix = None, sp_detail_mode = None, sp_open_another_tab = None,
         sp_type_resource = ''table'', sp_columns_to_render = None,
         sp_default_for_all = 0\<rparr>]"
proof -
  let ?q = "''SELECT * FROM Y WHERE x=@business_unit''"
  let ?c = "\<lparr>server = Some ''srv'', database = Some ''dev'', username = Some ''u'',
             password = Some ''p'', driver = odbc_driver\<rparr>"
  have c: "contains placeholder ?q"
    by (simp add: placeholder_def)
  have f: "faults (example_world []) = []"
    by (simp add: example_world_def)
  have k: "map_of (DB_CONFIGS (getenv example_host)) (query_database_key None ?q) = Some ?c"
    by (simp add: query_database_key_def upper_def to_upper_def DB_CONFIGS_def
        example_host_def example_env_def)
  have m: "params_config (Some [(''business_unit'', ''INT'')]) = [(''business_unit'', ''INT'')]"
    by (simp add: params_config_def dict_update_def)
  have j: "json_dumps [(''business_unit'', ''INT'')] =
      [CHR ''{'', CHR 0x22] @ ''business_unit'' @ [CHR 0x22] @ '': '' @
      [CHR 0x22] @ ''INT'' @ [CHR 0x22, CHR ''}'']"
    by (simp add: json_dumps_def json_string_def json_escape_def)
  show ?thesis
    using create_report_ok(2) [OF c f k, of "''sales''" "''Sales''" "''Ventas''"
        "Some [(''business_unit'', ''INT'')]" 0 None None None None None "''table''" None 0]
    by (simp add: m j)
qed

text \<open>
  Claim C6, amended. The parameter-type map always has the key \<open>business_unit\<close>.
  It maps the key to \<open>NVARCHAR(20)\<close> whenever \<open>additional_params\<close> has no key
  \<open>business_unit\<close> of its own; when it has one, the caller's type replaces the base
  entry. Every call of the stored procedure made by \<open>create_report\<close>, and by a turn
  of the loop of \<open>bulk_create_reports\<close>, passes the JSON text of that map.
\<close>

theorem business_unit_in_params_config:
  "(\<exists>v. map_of (params_config additional_params) ''business_unit'' = Some v) \<and>
   ((\<forall>ps. additional_params = Some ps \<longrightarrow> ''business_unit'' \<notin> fst ` set ps) \<longrightarrow>
      map_of (params_config additional_params) ''business_unit'' = Some ''NVARCHAR(20)'') \<and>
   (additional_params = Some ps \<and> distinct (map fst ps) \<and> (''business_unit'', v) \<in> set ps \<longrightarrow>
      map_of (params_config additional_params) ''business_unit'' = Some v) \<and>
   (Sp_call args \<in> set (executed (events_since w
      (snd (create_report h report_prefix report_description_en report_description_es query
         additional_params is_detail has_detail action_column detail_prefix detail_mode
         open_another_tab type_resource columns_to_render default_for_all database_key w)))) \<longrightarrow>
      sp_params_config args = json_dumps (params_config additional_params)) \<and>
   (Sp_call args \<in> set (executed (events_since w (snd (create_item h conn i rd st w)))) \<longrightarrow>
      sp_params_config args = json_dumps (params_config (rd_additional_params rd)))"
proof (intro conjI impI)
  show "\<exists>v. map_of (params_config additional_params) ''business_unit'' = Some v"
    by (rule params_config_present)
next
  assume "\<forall>ps. additional_params = Some ps \<longrightarrow> ''business_unit'' \<notin> fst ` set ps"
  then show "map_of (params_config additional_params) ''business_unit'' = Some ''NVARCHAR(20)''"
    by (rule params_config_fixed)
next
  assume "additional_params = Some ps \<and> distinct (map fst ps) \<and>
    (''business_unit'', v) \<in> set ps"
  then show "map_of (params_config additional_params) ''business_unit'' = Some v"
    using params_config_override [of ps v] by simp
next
  assume "Sp_call args \<in> set (executed (events_since w
      (snd (create_report h report_prefix report_description_en report_description_es query
         additional_params is_detail has_detail action_column detail_prefix detail_mode
         open_another_tab type_resource columns_to_render default_for_all database_key w))))"
  then show "sp_params_config args = json_dumps (params_config additional_params)"
    by (rule create_report_sp_params)
next
  assume "Sp_call args \<in> set (executed (events_since w (snd (create_item h conn i rd st w))))"
  then show "sp_params_config args = json_dumps (params_config (rd_additional_params rd))"
    by (rule create_item_sp_params)
qed

theorem business_unit_in_params_config_witness:
  "map_of (params_config (Some [(''region'', ''INT'')])) ''business_unit'' =
     Some ''NVARCHAR(20)'' \<and>
   map_of (params_config (Some [(''region'', ''INT''), (''business_unit'', ''NVARCHAR(50)'')]))
     ''business_unit'' = Some ''NVARCHAR(50)'' \<and>
   sp_params_config
     \<lparr>sp_report_prefix = ''sales'', sp_report_description = ''Sales'',
      sp_report_description_es = ''Ventas'',
      sp_query = ''SELECT * FROM Y WHERE x=@business_unit'',
      sp_params_config = json_dumps (params_config (Some [(''region'', ''INT'')])),
      sp_is_detail = 0, sp_hasDetail = None, sp_actionColumn = None,
      sp_detail_prefix = None, sp_detail_mode = None, sp_open_another_tab = None,
      sp_type_resource = ''table'', sp_columns_to_render = None,
      sp_default_for_all = 0\<rparr> =
     [CHR ''{'', CHR 0x22] @ ''business_unit'' @ [CHR 0x22] @ '': '' @
     [CHR 0x22] @ ''NVARCHAR(20)'' @ [CHR 0x22] @ '', '' @
     [CHR 0x22] @ ''region'' @ [CHR 0x22] @ '': '' @
     [CHR 0x22] @ ''INT'' @ [CHR 0x22, CHR ''}'']"
proof -
  let ?q = "''SELECT * FROM Y WHERE x=@business_unit''"
  let ?c = "\<lparr>server = Some ''srv'', database = Some ''dev'', username = Some ''u'',
             password = Some ''p'', driver = odbc_driver\<rparr>"
  let ?args = "\<lparr>sp_report_prefix = ''sales'', sp_report_description = ''Sales'',
      sp_report_description_es = ''Ventas'', sp_query = ?q,
      sp_params_config = json_dumps (params_config (Some [(''region'', ''INT'')])),
      sp_is_detail = 0, sp_hasDetail = None, sp_actionColumn = None,
      sp_detail_prefix = None, sp_detail_mode = None, sp_open_another_tab = None,
      sp_type_resource = ''table'', sp_columns_to_render = None,
      sp_default_for_all = 0\<rparr>"
  have c: "contains placeholder ?q"
    by (simp add: placeholder_def)
  have f: "faults (example_world []) = []"
    by (simp add: example_world_def)
  have k: "map_of (DB_CONFIGS (getenv example_host)) (query_database_key None ?q) = Some ?c"
    by (simp add: query_database_key_def upper_def to_upper_def DB_CONFIGS_def
        example_host_def example_env_def)
  have mem: "Sp_call ?args \<in> set (executed (events_since (example_world [])
      (snd (create_report example_host ''sales'' ''Sales'' ''Ventas'' ?q
         (Some [(''region'', ''INT'')]) 0 None None None None None ''table'' None 0 None
         (example_world [])))))"
    using create_report_ok(2) [OF c f k, of "''sales''" "''Sales''" "''Ventas''"
        "Some [(''region'', ''INT'')]" 0 None None None None None "''table''" None 0]
    by simp
  have a: "sp_params_config ?args = json_dumps (params_config (Some [(''region'', ''INT'')]))"
    using business_unit_in_params_config
      [where additional_params = "Some [(''region'', ''INT'')]" and args = ?args
        and w = "example_world []" and h = example_host and query = ?q
        and report_prefix = "''sales''" and report_description_en = "''Sales''"
        and report_description_es = "''Ventas''" and is_detail = 0 and has_detail = None
        and action_column = None and detail_prefix = None and detail_mode = None
        and open_another_tab = None and type_resource = "''table''"
        and columns_to_render = None and default_for_all = 0 and database_key = None]
      mem
    by blast
  have j: "json_dumps (params_config (Some [(''region'', ''INT'')])) =
     [CHR ''{'', CHR 0x22] @ ''business_unit'' @ [CHR 0x22] @ '': '' @
     [CHR 0x22] @ ''NVARCHAR(20)'' @ [CHR 0x22] @ '', '' @
     [CHR 0x22] @ ''region'' @ [CHR 0x22] @ '': '' @
     [CHR 0x22] @ ''INT'' @ [CHR 0x22, CHR ''}'']"
    by (simp add: params_config_def dict_update_def json_dumps_def json_string_def
        json_escape_def)
  have b: "map_of (params_config (Some [(''region'', ''INT'')])) ''business_unit'' =
     Some ''NVARCHAR(20)''"
    using business_unit_in_params_config [where additional_params = "Some [(''region'', ''INT'')]"]
    by simp
  have d: "map_of (params_config
      (Some [(''region'', ''INT''), (''business_unit'', ''NVARCHAR(50)'')]))
     ''business_unit'' = Some ''NVARCHAR(50)''"
    using business_unit_in_params_config
      [where additional_params =
          "Some [(''region'', ''INT''), (''business_unit'', ''NVARCHAR(50)'')]"
        and ps = "[(''region'', ''INT''), (''business_unit'', ''NVARCHAR(50)'')]"
        and v = "''NVARCHAR(50)''"]
    by simp
  show ?thesis
    using a b d unfolding j by blast
qed

section \<open>A batch with a failing item\<close>












section \<open>An update without fields\<close>

lemma cursor_execute_frame:
  "cursor_execute s conn w = (r, w') \<Longrightarrow>
   log w' = log w @ [Execute (handle conn) s] \<and> store w' = store w"
  by (auto simp: cursor_execute_def next_fault_def split: list.splits option.splits)

lemma get_db_connection_frame:
  "get_db_connection h key w = (r, w') \<Longrightarrow>
   ((\<exists>cs. log w' = log w @ [Connect cs]) \<or> log w' = log w) \<and> store w' = store w"
  by (auto simp: get_db_connection_def pyodbc_connect_def next_fault_def
      split: option.splits list.splits)

lemma update_fields_none [simp]: "update_fields None None None None None = []"
  by (simp add: update_fields_def)

lemma joined_roles_not_empty: "joined_roles d r \<noteq> []"
  by (simp add: joined_roles_def split: list.splits)

lemma select_current_not_empty:
  "0 < count_assigned d business_unit report_prefix role \<Longrightarrow>
   select_current d business_unit report_prefix role \<noteq> []"
proof -
  assume "0 < count_assigned d business_unit report_prefix role"
  then obtain r rs where
    "filter (matches_key business_unit report_prefix role) (assigned_reports d) = r # rs"
    by (cases "filter (matches_key business_unit report_prefix role) (assigned_reports d)")
       (auto simp: count_assigned_def)
  then show ?thesis
    by (simp add: select_current_def joined_roles_not_empty)
qed

lemma update_without_fields:
  assumes "faults w = []"
    and "0 < count_assigned (store w (default_target h)) business_unit report_prefix role_code"
  shows "fst (update_report_assignment h report_prefix business_unit role_code
           None None None None None w) = Inr (Warning_mark, No_update_fields)"
proof -
  obtain cur rest where
    "select_current (store w (default_target h)) business_unit report_prefix role_code =
       cur # rest"
    using select_current_not_empty [OF assms(2)]
    by (cases "select_current (store w (default_target h)) business_unit report_prefix role_code")
       auto
  then show ?thesis
    using assms
    by (cases cur)
       (simp add: update_report_assignment_def get_default_connection connect_ok execute_ok
        view_def Let_def)
qed

lemma update_without_fields_safe:
  "store (snd (update_report_assignment h report_prefix business_unit role_code
           None None None None None w)) = store w \<and>
   \<not> list_ex is_update (executed (events_since w
       (snd (update_report_assignment h report_prefix business_unit role_code
           None None None None None w))))"
  by (auto simp: update_report_assignment_def and_then_def catch_def Let_def events_since_def
      split: prod.splits sum.splits if_splits list.splits
      dest!: get_db_connection_frame cursor_execute_frame)

lemma bulk_update_without_fields:
  assumes "faults w = []"
    and "0 < count_assigned_in (store w (default_target h)) business_unit report_prefix role_codes"
  shows "fst (bulk_update_report_assignments h report_prefix business_unit role_codes
           None None None None None w) = Inr (Warning_mark, Bulk_no_update_fields)"
proof -
  have "role_codes \<noteq> []"
    using assms(2) by (auto simp: count_assigned_in_def matches_key_in_def)
  then show ?thesis
    using assms
    by (simp add: bulk_update_report_assignments_def get_default_connection connect_ok
        execute_ok view_def Let_def)
qed

lemma bulk_update_without_fields_safe:
  "store (snd (bulk_update_report_assignments h report_prefix business_unit role_codes
           None None None None None w)) = store w \<and>
   \<not> list_ex is_update (executed (events_since w
       (snd (bulk_update_report_assignments h report_prefix business_unit role_codes
           None None None None None w))))"
  by (auto simp: bulk_update_report_assignments_def and_then_def catch_def Let_def
      events_since_def
      split: prod.splits sum.splits if_splits
      dest!: get_db_connection_frame cursor_execute_frame)


text \<open>
  Claim C8. When every optional field is \<open>None\<close>, the targeted rows exist and the
  driver does not fail, \<open>update_report_assignment\<close> and
  \<open>bulk_update_report_assignments\<close> return the warning that no field was given.
  Whatever the driver does and whether or not the rows exist, such a call executes no
  \<open>UPDATE\<close> statement and leaves the committed data of every database, so every row
  of \<open>assigned_reports\<close>, as it was.
\<close>

theorem update_without_fields_is_a_warning:
  fixes h :: host and w :: world
    and report_prefix business_unit role_code :: string and role_codes :: "string list"
  defines "single \<equiv> update_report_assignment h report_prefix business_unit role_code
     None None None None None w"
    and "bulk \<equiv> bulk_update_report_assignments h report_prefix business_unit role_codes
     None None None None None w"
  shows
  "(faults w = [] \<and>
    0 < count_assigned (store w (default_target h)) business_unit report_prefix role_code \<longrightarrow>
      fst single = Inr (Warning_mark, No_update_fields)) \<and>
   store (snd single) = store w \<and>
   \<not> list_ex is_update (executed (events_since w (snd single))) \<and>
   (faults w = [] \<and>
    0 < count_assigned_in (store w (default_target h)) business_unit report_prefix role_codes \<longrightarrow>
      fst bulk = Inr (Warning_mark, Bulk_no_update_fields)) \<and>
   store (snd bulk) = store w \<and>
   \<not> list_ex is_update (executed (events_since w (snd bulk)))"
  unfolding single_def bulk_def
  using update_without_fields [of w h business_unit report_prefix role_code]
    update_without_fields_safe [of h report_prefix business_unit role_code w]
    bulk_update_without_fields [of w h business_unit report_prefix role_codes]
    bulk_update_without_fields_safe [of h report_prefix business_unit role_codes w]
  by blast

theorem update_without_fields_is_a_warning_witness:
  "fst (update_report_assignment example_host ''sales'' ''BU1'' ''ADM''
          None None None None None (example_world [example_row])) =
     Inr (Warning_mark, No_update_fields) \<and>
   fst (bulk_update_report_assignments example_host ''sales'' ''BU1'' [''ADM'', ''OPS'']
          None None None None None (example_world [example_row])) =
     Inr (Warning_mark, Bulk_no_update_fields)"
proof -
  have f: "faults (example_world [example_row]) = []"
    by (simp add: example_world_def)
  have c: "0 < count_assigned
      (store (example_world [example_row]) (default_target example_host))
      ''BU1'' ''sales'' ''ADM''"
    by (simp add: count_assigned_def example_world_def example_db_def example_row_def
        matches_key_def)
  have d: "0 < count_assigned_in
      (store (example_world [example_row]) (default_target example_host))
      ''BU1'' ''sales'' [''ADM'', ''OPS'']"
    by (simp add: count_assigned_in_def example_world_def example_db_def example_row_def
        matches_key_in_def)
  show ?thesis
    using update_without_fields_is_a_warning
      [where w = "example_world [example_row]" and h = example_host
        and business_unit = "''BU1''" and report_prefix = "''sales''"
        and role_code = "''ADM''" and role_codes = "[''ADM'', ''OPS'']"]
      f c d
    by blast
qed

section \<open>No duplicate assignment\<close>

lemma get_default_connection_effect:
  "get_db_connection h ''default'' w = (Inr conn, w') \<Longrightarrow>
   target conn = default_target h \<and> store w' = store w \<and>
   sessions w' (handle conn) = store w (default_target h)"
  by (auto simp: get_default_connection pyodbc_connect_def next_fault_def
      split: list.splits option.splits)

lemma get_db_connection_store:
  "get_db_connection h key w = (r, w') \<Longrightarrow> store w' = store w"
  by (auto simp: get_db_connection_def pyodbc_connect_def next_fault_def
      split: list.splits option.splits)

lemma conn_close_frame [simp]:
  "store (conn_close conn w) = store w" "sessions (conn_close conn w) = sessions w"
  by (simp_all add: conn_close_def)

lemma no_new_duplicates_refl [simp]: "no_new_duplicates d d"
  by (simp add: no_new_duplicates_def)

lemma no_new_duplicates_trans:
  "no_new_duplicates a b \<Longrightarrow> no_new_duplicates b c \<Longrightarrow> no_new_duplicates a c"
  unfolding no_new_duplicates_def
  by (metis (no_types, opaque_lifting) le_trans max.absorb2 max.cobounded1 max.commute max_def)

lemma count_assigned_insert:
  "count_assigned (d\<lparr>assigned_reports := assigned_reports d @ [row]\<rparr>) bu p r =
     count_assigned d bu p r + (if matches_key bu p r row then 1 else 0)"
  by (simp add: count_assigned_def)

lemma insert_absent_no_new_duplicates:
  assumes "count_assigned d (ar_business_unit row) (ar_report_prefix row) (ar_role row) = 0"
  shows "no_new_duplicates d (apply_stmt (Insert_query row) d)"
  unfolding no_new_duplicates_def
proof (intro allI)
  fix bu p r
  show "count_assigned (apply_stmt (Insert_query row) d) bu p r
      \<le> max 1 (count_assigned d bu p r)"
  proof (cases "matches_key bu p r row")
    case True
    then have "count_assigned d bu p r = 0"
      using assms by (simp add: matches_key_def)
    then show ?thesis
      using True by (simp add: count_assigned_insert)
  next
    case False
    then show ?thesis by (simp add: count_assigned_insert)
  qed
qed

lemma select_roles_insert [simp]:
  "select_roles h (d\<lparr>assigned_reports := rows\<rparr>) = select_roles h d"
  by (simp add: select_roles_def fun_eq_iff)

lemma cursor_execute_Inr:
  "cursor_execute s conn w = (Inr u, w') \<Longrightarrow>
   store w' = store w \<and>
   sessions w' = (sessions w)(handle conn := apply_stmt s (sessions w (handle conn)))"
  by (auto simp: cursor_execute_def next_fault_def view_def split: list.splits option.splits)

lemma cursor_execute_Inl:
  "cursor_execute s conn w = (Inl e, w') \<Longrightarrow> store w' = store w \<and> sessions w' = sessions w"
  by (auto simp: cursor_execute_def next_fault_def view_def split: list.splits option.splits)

lemma conn_commit_Inr:
  "conn_commit conn w = (Inr u, w') \<Longrightarrow>
   store w' = (store w)(target conn := sessions w (handle conn)) \<and> sessions w' = sessions w"
  by (auto simp: conn_commit_def next_fault_def view_def split: list.splits option.splits)

lemma conn_commit_Inl:
  "conn_commit conn w = (Inl e, w') \<Longrightarrow> store w' = store w \<and> sessions w' = sessions w"
  by (auto simp: conn_commit_def next_fault_def view_def split: list.splits option.splits)

lemma assign_store_cases:
  fixes h :: host and w :: world
    and report_prefix business_unit role_description :: string
    and application_type custom_tag sales_office center_logistical :: "string option"
    and order :: "int option"
  defines "run \<equiv> assign_report_to_role h report_prefix business_unit role_description
      application_type order custom_tag sales_office center_logistical w"
  shows "store (snd run) = store w \<or>
   (\<exists>row. store (snd run) =
        (store w)(default_target h := apply_stmt (Insert_query row) (store w (default_target h))) \<and>
      count_assigned (store w (default_target h))
        (ar_business_unit row) (ar_report_prefix row) (ar_role row) = 0)"
proof -
  let ?pat = "''%'' @ role_description @ ''%''"
  let ?d = "store w (default_target h)"
  obtain r0 w0 where c: "get_db_connection h ''default'' w = (r0, w0)"
    by (cases "get_db_connection h ''default'' w")
  then have s0: "store w0 = store w"
    by (rule get_db_connection_store)
  show ?thesis
  proof (cases r0)
    case (Inl e)
    with c s0 show ?thesis
      by (simp add: run_def assign_report_to_role_def)
  next
    case (Inr conn)
    with c have t: "target conn = default_target h" and v0: "sessions w0 (handle conn) = ?d"
      using get_default_connection_effect by blast+
    obtain r1 w1 where e1: "cursor_execute (Role_query business_unit ?pat) conn w0 = (r1, w1)"
      by (cases "cursor_execute (Role_query business_unit ?pat) conn w0")
    show ?thesis
    proof (cases r1)
      case (Inl e)
      with e1 have "store w1 = store w0" using cursor_execute_Inl by blast
      with c Inr e1 Inl s0 show ?thesis
        by (simp add: run_def assign_report_to_role_def)
    next
      case u1: (Inr u)
      with e1 have s1: "store w1 = store w" and v1: "sessions w1 (handle conn) = ?d"
        using cursor_execute_Inr [of _ conn w0 u w1] s0 v0 by auto
      show ?thesis
      proof (cases "select_roles h ?d business_unit ?pat")
        case Nil
        with c Inr e1 u1 s1 v1 show ?thesis
          by (simp add: run_def assign_report_to_role_def view_def)
      next
        case (Cons role others)
        let ?row = "\<lparr>ar_role = dr_code role, ar_report_prefix = report_prefix,
                         ar_business_unit = business_unit,
                         ar_application_type = application_type, ar_order = order,
                         ar_custom_tag = custom_tag, ar_sales_office = sales_office,
                         ar_center_logistical = center_logistical\<rparr>"
        obtain r2 w2 where e2:
          "cursor_execute (Check_query business_unit report_prefix (dr_code role)) conn w1 =
             (r2, w2)"
          by (cases "cursor_execute (Check_query business_unit report_prefix (dr_code role))
                conn w1")
        show ?thesis
        proof (cases r2)
          case (Inl e)
          with e2 have "store w2 = store w1" using cursor_execute_Inl by blast
          with c Inr e1 u1 s1 v1 Cons e2 Inl show ?thesis
            by (simp add: run_def assign_report_to_role_def view_def)
        next
          case u2: (Inr u')
          with e2 have s2: "store w2 = store w" and v2: "sessions w2 (handle conn) = ?d"
            using cursor_execute_Inr [of _ conn w1 u' w2] s1 v1 by auto
          show ?thesis
          proof (cases "0 < count_assigned ?d business_unit report_prefix (dr_code role)")
            case True
            with c Inr e1 u1 s1 v1 Cons e2 u2 s2 v2 show ?thesis
              by (simp add: run_def assign_report_to_role_def view_def)
          next
            case False
            then have zero: "count_assigned ?d business_unit report_prefix (dr_code role) = 0"
              by simp
            obtain r3 w3 where e3: "cursor_execute (Insert_query ?row) conn w2 = (r3, w3)"
              by (cases "cursor_execute (Insert_query ?row) conn w2")
            show ?thesis
            proof (cases r3)
              case (Inl e)
              with e3 have "store w3 = store w2" using cursor_execute_Inl by blast
              with c Inr e1 u1 s1 v1 Cons e2 u2 s2 v2 zero e3 Inl show ?thesis
                by (simp add: run_def assign_report_to_role_def view_def)
            next
              case u3: (Inr u'')
              with e3 have s3: "store w3 = store w"
                and v3: "sessions w3 (handle conn) = apply_stmt (Insert_query ?row) ?d"
                using cursor_execute_Inr [of _ conn w2 u'' w3] s2 v2 by auto
              obtain r4 w4 where e4: "conn_commit conn w3 = (r4, w4)"
                by (cases "conn_commit conn w3")
              show ?thesis
              proof (cases r4)
                case (Inl e)
                with e4 have "store w4 = store w3" using conn_commit_Inl by blast
                with c Inr e1 u1 s1 v1 Cons e2 u2 s2 v2 zero e3 u3 s3 e4 Inl show ?thesis
                  by (simp add: run_def assign_report_to_role_def view_def)
              next
                case u4: (Inr u''')
                with e4 have s4: "store w4 =
                    (store w)(default_target h := apply_stmt (Insert_query ?row) ?d)"
                  using conn_commit_Inr [of conn w3 u''' w4] s3 v3 t by auto
                have "store (snd run) =
                    (store w)(default_target h := apply_stmt (Insert_query ?row) ?d)"
                  using c Inr e1 u1 s1 v1 Cons e2 u2 s2 v2 zero e3 u3 e4 u4 s4
                  by (simp add: run_def assign_report_to_role_def view_def)
                moreover have "count_assigned ?d (ar_business_unit ?row) (ar_report_prefix ?row)
                    (ar_role ?row) = 0"
                  using zero by simp
                ultimately show ?thesis by blast
              qed
            qed
          qed
        qed
      qed
    qed
  qed
qed

lemma no_missing_assignment_fields:
  "missing_assignment_fields ad = [] \<Longrightarrow>
   \<exists>p bu rd at. ad_report_prefix ad = Some p \<and> ad_business_unit ad = Some bu \<and>
     ad_role_description ad = Some rd \<and> ad_application_type ad = Some at"
  by (cases "ad_report_prefix ad"; cases "ad_business_unit ad";
      cases "ad_role_description ad"; cases "ad_application_type ad")
     (simp_all add: missing_assignment_fields_def)

lemma assign_item_try_effect:
  assumes "assign_item_try h conn i ad w = (r, w')"
  shows "store w' = store w \<and>
    no_new_duplicates (sessions w (handle conn)) (sessions w' (handle conn))"
proof (cases "missing_assignment_fields ad = []")
  case False
  with assms show ?thesis
    by (auto simp: assign_item_try_def Let_def)
next
  case True
  then obtain p bu rd at where
    fields: "ad_report_prefix ad = Some p" "ad_business_unit ad = Some bu"
      "ad_role_description ad = Some rd" "ad_application_type ad = Some at"
    using no_missing_assignment_fields by blast
  let ?pat = "''%'' @ rd @ ''%''"
  let ?d = "sessions w (handle conn)"
  show ?thesis
  proof (cases "at = ''sales_force'' \<or> at = ''merchandising''")
    case False
    with assms True fields show ?thesis
      by (auto simp: assign_item_try_def Let_def item_def)
  next
    case app: True
    obtain r1 w1 where e1: "cursor_execute (Role_query bu ?pat) conn w = (r1, w1)"
      by (cases "cursor_execute (Role_query bu ?pat) conn w")
    show ?thesis
    proof (cases r1)
      case (Inl e)
      with e1 have "store w1 = store w" "sessions w1 = sessions w"
        using cursor_execute_Inl by blast+
      with assms True fields app e1 Inl show ?thesis
        by (auto simp: assign_item_try_def Let_def item_def)
    next
      case u1: (Inr u)
      with e1 have s1: "store w1 = store w" and v1: "sessions w1 (handle conn) = ?d"
        using cursor_execute_Inr [of _ conn w u w1] by auto
      show ?thesis
      proof (cases "select_roles h ?d bu ?pat")
        case Nil
        with assms True fields app e1 u1 s1 v1 show ?thesis
          by (auto simp: assign_item_try_def Let_def item_def view_def)
      next
        case (Cons role others)
        let ?row = "\<lparr>ar_role = dr_code role, ar_report_prefix = p,
                     ar_business_unit = bu,
                     ar_application_type = Some at,
                     ar_order = ad_order ad,
                     ar_custom_tag = ad_custom_tag ad,
                     ar_sales_office = ad_sales_office ad,
                     ar_center_logistical = ad_center_logistical ad\<rparr>"
        obtain r2 w2 where e2:
          "cursor_execute (Check_query bu p (dr_code role)) conn w1 = (r2, w2)"
          by (cases "cursor_execute (Check_query bu p (dr_code role)) conn w1")
        show ?thesis
        proof (cases r2)
          case (Inl e)
          with e2 have "store w2 = store w1" "sessions w2 = sessions w1"
            using cursor_execute_Inl by blast+
          with assms True fields app e1 u1 s1 v1 Cons e2 Inl show ?thesis
            by (auto simp: assign_item_try_def Let_def item_def view_def)
        next
          case u2: (Inr u')
          with e2 have s2: "store w2 = store w" and v2: "sessions w2 (handle conn) = ?d"
            using cursor_execute_Inr [of _ conn w1 u' w2] s1 v1 by auto
          show ?thesis
          proof (cases "0 < count_assigned ?d bu p (dr_code role)")
            case True
            with assms \<open>missing_assignment_fields ad = []\<close> fields app e1 u1 s1 v1 Cons e2 u2
              s2 v2 show ?thesis
              by (auto simp: assign_item_try_def Let_def item_def view_def)
          next
            case False
            then have zero: "count_assigned ?d bu p (dr_code role) = 0"
              by simp
            then have dup: "no_new_duplicates ?d (apply_stmt (Insert_query ?row) ?d)"
              by (intro insert_absent_no_new_duplicates) simp
            obtain r3 w3 where e3: "cursor_execute (Insert_query ?row) conn w2 = (r3, w3)"
              by (cases "cursor_execute (Insert_query ?row) conn w2")
            show ?thesis
            proof (cases r3)
              case (Inl e)
              with e3 have "store w3 = store w2" "sessions w3 = sessions w2"
                using cursor_execute_Inl by blast+
              with assms True fields app e1 u1 s1 v1 Cons e2 u2 s2 v2 zero e3 Inl
              show ?thesis
                by (auto simp: assign_item_try_def Let_def item_def view_def)
            next
              case u3: (Inr u'')
              with e3 have s3: "store w3 = store w"
                and v3: "sessions w3 (handle conn) = apply_stmt (Insert_query ?row) ?d"
                using cursor_execute_Inr [of _ conn w2 u'' w3] s2 v2 by auto
              have "w' = w3"
                using assms True fields app e1 u1 v1 Cons e2 u2 v2 zero e3 u3
                by (auto simp: assign_item_try_def Let_def item_def view_def)
              with s3 v3 dup show ?thesis by simp
            qed
          qed
        qed
      qed
    qed
  qed
qed

lemma assign_item_effect:
  assumes "assign_item h conn i ad st w = (st', w')"
  shows "store w' = store w \<and>
    no_new_duplicates (sessions w (handle conn)) (sessions w' (handle conn))"
proof -
  obtain r where "assign_item_try h conn i ad w = (r, w')"
    using assms
    by (cases "assign_item_try h conn i ad w")
       (auto simp: assign_item_def split: prod.splits sum.splits assign_outcome.splits)
  then show ?thesis by (rule assign_item_try_effect)
qed

lemma assign_loop_effect:
  "assign_loop h conn i ads st w = (st', w') \<Longrightarrow>
   store w' = store w \<and>
   no_new_duplicates (sessions w (handle conn)) (sessions w' (handle conn))"
proof (induction ads arbitrary: i st w)
  case Nil
  then show ?case by simp
next
  case (Cons ad ads)
  obtain st1 w1 where step: "assign_item h conn i ad st w = (st1, w1)"
    by (cases "assign_item h conn i ad st w")
  with Cons.prems have rest: "assign_loop h conn (Suc i) ads st1 w1 = (st', w')"
    by simp
  from assign_item_effect [OF step] Cons.IH [OF rest] show ?case
    using no_new_duplicates_trans by auto
qed

lemma bulk_assign_store_cases:
  "\<exists>d. no_new_duplicates (store w (default_target h)) d \<and>
     (store (snd (bulk_assign_reports_to_roles h assignments_data w)) = store w \<or>
      store (snd (bulk_assign_reports_to_roles h assignments_data w)) =
        (store w)(default_target h := d))"
proof (cases "assignments_data = []")
  case True
  then show ?thesis
    by (auto simp: bulk_assign_reports_to_roles_def intro: exI [of _ "store w (default_target h)"])
next
  case False
  obtain r0 w0 where c: "get_db_connection h ''default'' w = (r0, w0)"
    by (cases "get_db_connection h ''default'' w")
  then have s0: "store w0 = store w"
    by (rule get_db_connection_store)
  show ?thesis
  proof (cases r0)
    case (Inl e)
    with False c s0 show ?thesis
      by (auto simp: bulk_assign_reports_to_roles_def
          intro: exI [of _ "store w (default_target h)"])
  next
    case (Inr conn)
    with c have t: "target conn = default_target h"
      and v0: "sessions w0 (handle conn) = store w (default_target h)"
      using get_default_connection_effect by blast+
    obtain st1 w1 where loop: "assign_loop h conn 1 assignments_data ([], [], [], 0) w0 = (st1, w1)"
      by (cases "assign_loop h conn 1 assignments_data ([], [], [], 0) w0")
    from assign_loop_effect [OF loop] have s1: "store w1 = store w"
      and d1: "no_new_duplicates (store w (default_target h)) (sessions w1 (handle conn))"
      using s0 v0 by auto
    obtain a b k n where st1: "st1 = (a, b, k, n)" by (cases st1)
    obtain r2 w2 where e2: "conn_commit conn w1 = (r2, w2)"
      by (cases "conn_commit conn w1")
    show ?thesis
    proof (cases r2)
      case (Inl e)
      with e2 have "store w2 = store w1" using conn_commit_Inl by blast
      with False c Inr loop st1 e2 Inl s1 d1 show ?thesis
        by (auto simp: bulk_assign_reports_to_roles_def)
    next
      case u: (Inr u')
      with e2 have "store w2 = (store w)(default_target h := sessions w1 (handle conn))"
        using conn_commit_Inr [of conn w1 u' w2] s1 t by auto
      with False c Inr loop st1 e2 u d1 show ?thesis
        by (auto simp: bulk_assign_reports_to_roles_def)
    qed
  qed
qed

lemma count_assigned_upd [simp]:
  "count_assigned (d\<lparr>assigned_reports := rows\<rparr>) bu p r =
     length (filter (matches_key bu p r) rows)"
  by (simp add: count_assigned_def)

lemma assign_inserts:
  assumes "faults w = []"
    and "select_roles h (store w (default_target h)) business_unit
           (''%'' @ role_description @ ''%'') = role # others"
    and "count_assigned (store w (default_target h)) business_unit report_prefix (dr_code role) = 0"
  shows "faults (snd (assign_report_to_role h report_prefix business_unit role_description
           application_type order custom_tag sales_office center_logistical w)) = []"
    and "store (snd (assign_report_to_role h report_prefix business_unit role_description
           application_type order custom_tag sales_office center_logistical w)) =
         (store w)(default_target h :=
            (store w (default_target h))
              \<lparr>assigned_reports := assigned_reports (store w (default_target h)) @
                 [\<lparr>ar_role = dr_code role, ar_report_prefix = report_prefix,
                   ar_business_unit = business_unit,
                   ar_application_type = application_type, ar_order = order,
                   ar_custom_tag = custom_tag, ar_sales_office = sales_office,
                   ar_center_logistical = center_logistical\<rparr>]\<rparr>)"
  using assms
  by (simp_all add: assign_report_to_role_def get_default_connection connect_ok execute_ok
      commit_ok conn_close_def view_def Let_def)

lemma assign_twice:
  fixes h :: host and w :: world
    and report_prefix business_unit role_description role_description' :: string
    and application_type custom_tag sales_office center_logistical :: "string option"
    and application_type' custom_tag' sales_office' center_logistical' :: "string option"
    and order order' :: "int option"
  defines "first \<equiv> assign_report_to_role h report_prefix business_unit role_description
      application_type order custom_tag sales_office center_logistical w"
  defines "second \<equiv> assign_report_to_role h report_prefix business_unit role_description'
      application_type' order' custom_tag' sales_office' center_logistical' (snd first)"
  assumes f: "faults w = []"
    and r: "select_roles h (store w (default_target h)) business_unit
           (''%'' @ role_description @ ''%'') = role # others"
    and r': "select_roles h (store w (default_target h)) business_unit
           (''%'' @ role_description' @ ''%'') = role' # others'"
    and same: "dr_code role' = dr_code role"
  shows "fst second =
           Inr (Warning_mark, Already_assigned report_prefix (dr_code role) business_unit)"
    and "\<not> list_ex is_insert (executed (events_since (snd first) (snd second)))"
    and "store (snd second) = store (snd first)"
    and "count_assigned (store (snd second) (default_target h)) business_unit report_prefix
           (dr_code role) =
         max 1 (count_assigned (store w (default_target h)) business_unit report_prefix
           (dr_code role))"
proof -
  let ?d = "store w (default_target h)"
  let ?n = "count_assigned ?d business_unit report_prefix (dr_code role)"
  have mid: "faults (snd first) = [] \<and>
    select_roles h (store (snd first) (default_target h)) business_unit
      (''%'' @ role_description' @ ''%'') = role' # others' \<and>
    count_assigned (store (snd first) (default_target h)) business_unit report_prefix
      (dr_code role) = max 1 ?n"
  proof (cases "0 < ?n")
    case True
    then show ?thesis
      using f r r' assign_already_assigned [OF f r True, of application_type order custom_tag
          sales_office center_logistical]
      by (simp add: first_def)
  next
    case False
    then have z: "?n = 0" by simp
    show ?thesis
      using r' z assign_inserts [OF f r z, of application_type order custom_tag
          sales_office center_logistical]
      by (simp add: first_def matches_key_def count_assigned_def)
  qed
  then have pos: "0 < count_assigned (store (snd first) (default_target h)) business_unit
      report_prefix (dr_code role')"
    using same by simp
  note again = assign_already_assigned [of "snd first" h business_unit role_description'
      role' others' report_prefix application_type' order' custom_tag' sales_office'
      center_logistical', folded second_def]
  from mid pos have run: "second =
         (Inr (Warning_mark, Already_assigned report_prefix (dr_code role') business_unit),
          (snd first)\<lparr>log := log (snd first) @ [Connect (default_target h),
                 Execute (opened (snd first))
                   (Role_query business_unit (''%'' @ role_description' @ ''%'')),
                 Execute (opened (snd first))
                   (Check_query business_unit report_prefix (dr_code role'))],
            sessions := (sessions (snd first))
              (opened (snd first) := store (snd first) (default_target h)),
            opened := Suc (opened (snd first)),
            open_conns := open_conns (snd first) @ [opened (snd first)]\<rparr>)"
    using again by blast
  show "fst second =
           Inr (Warning_mark, Already_assigned report_prefix (dr_code role) business_unit)"
    using run same by simp
  show "\<not> list_ex is_insert (executed (events_since (snd first) (snd second)))"
    using run by (simp add: events_since_def)
  show s: "store (snd second) = store (snd first)"
    using run by simp
  show "count_assigned (store (snd second) (default_target h)) business_unit report_prefix
           (dr_code role) = max 1 ?n"
    using mid s by simp
qed

text \<open>
  Claim C1, as stated, at a concrete input: a table that already holds two rows for the
  key (nothing in the database forbids it). Both calls find the assignment, both skip,
  and the key is left with two rows, not one.
\<close>

theorem duplicate_rows_counterexample:
  "count_assigned
     (store
        (snd (assign_report_to_role example_host ''sales'' ''BU1'' ''admin'' None None None
                None None
                (snd (assign_report_to_role example_host ''sales'' ''BU1'' ''admin'' None None
                        None None None (example_world [example_row, example_row])))))
        (default_target example_host))
     ''BU1'' ''sales'' ''ADM'' = 2"
proof -
  let ?w = "example_world [example_row, example_row]"
  let ?role = "\<lparr>dr_code = ''ADM'', dr_description = ''administrador'',
          dr_application_type = Some ''sales_force'', dr_business_unit = ''BU1'',
          dr_order = None\<rparr>"
  have f: "faults ?w = []"
    by (simp add: example_world_def)
  have r: "select_roles example_host (store ?w (default_target example_host))
      ''BU1'' (''%'' @ ''admin'' @ ''%'') = ?role # []"
    by (simp add: select_roles_def example_world_def example_db_def example_host_def
        example_like_def)
  have n: "count_assigned (store ?w (default_target example_host)) ''BU1'' ''sales''
      (dr_code ?role) = 2"
    by (simp add: example_world_def example_db_def example_row_def matches_key_def
        count_assigned_def)
  then have n1: "count_assigned (store ?w (default_target example_host)) ''BU1'' ''sales''
      ''ADM'' = 2"
    by simp
  show ?thesis
    using assign_twice(4) [OF f r r refl, where report_prefix = "''sales''"
        and application_type = None and order = None and custom_tag = None
        and sales_office = None and center_logistical = None
        and application_type' = None and order' = None and custom_tag' = None
        and sales_office' = None and center_logistical' = None]
    unfolding n by (simp add: n1)
qed

text \<open>
  Claim C1, amended. Take two calls of \<open>assign_report_to_role\<close>, one after the
  other, with the same business unit and report prefix and role descriptions that
  resolve to the same role code, and a driver that does not fail. The second call
  finds the existing assignment, replies that the report is already assigned,
  executes no \<open>INSERT\<close> and leaves the committed data as the first call left it.
  The key then has one row if it had at most one row before the first call (in general
  it has as many rows as before, or one if it had none). And in every state, whatever
  the driver does, neither \<open>assign_report_to_role\<close> nor
  \<open>bulk_assign_reports_to_roles\<close> gives a key that has a row another one: after the
  operation each key has at most as many rows as before, or one.
\<close>

theorem no_duplicate_assignment:
  fixes h :: host and w :: world
    and report_prefix business_unit role_description role_description' :: string
    and application_type custom_tag sales_office center_logistical :: "string option"
    and application_type' custom_tag' sales_office' center_logistical' :: "string option"
    and order order' :: "int option"
  defines "first \<equiv> assign_report_to_role h report_prefix business_unit role_description
      application_type order custom_tag sales_office center_logistical w"
  defines "second \<equiv> assign_report_to_role h report_prefix business_unit role_description'
      application_type' order' custom_tag' sales_office' center_logistical' (snd first)"
  shows
  "(faults w = [] \<and>
    select_roles h (store w (default_target h)) business_unit
      (''%'' @ role_description @ ''%'') = role # others \<and>
    select_roles h (store w (default_target h)) business_unit
      (''%'' @ role_description' @ ''%'') = role' # others' \<and>
    dr_code role' = dr_code role \<longrightarrow>
      fst second =
        Inr (Warning_mark, Already_assigned report_prefix (dr_code role) business_unit) \<and>
      \<not> list_ex is_insert (executed (events_since (snd first) (snd second))) \<and>
      store (snd second) = store (snd first) \<and>
      count_assigned (store (snd second) (default_target h)) business_unit report_prefix
        (dr_code role) =
      max 1 (count_assigned (store w (default_target h)) business_unit report_prefix
        (dr_code role)) \<and>
      (count_assigned (store w (default_target h)) business_unit report_prefix
         (dr_code role) \<le> 1 \<longrightarrow>
       count_assigned (store (snd second) (default_target h)) business_unit report_prefix
         (dr_code role) = 1)) \<and>
   count_assigned (store (snd first) cs) bu p r \<le> max 1 (count_assigned (store w cs) bu p r) \<and>
   count_assigned (store (snd (bulk_assign_reports_to_roles h assignments_data w)) cs) bu p r
     \<le> max 1 (count_assigned (store w cs) bu p r)"
proof (intro conjI impI)
  assume a: "faults w = [] \<and>
    select_roles h (store w (default_target h)) business_unit
      (''%'' @ role_description @ ''%'') = role # others \<and>
    select_roles h (store w (default_target h)) business_unit
      (''%'' @ role_description' @ ''%'') = role' # others' \<and>
    dr_code role' = dr_code role"
  then have f: "faults w = []"
    and r: "select_roles h (store w (default_target h)) business_unit
      (''%'' @ role_description @ ''%'') = role # others"
    and r': "select_roles h (store w (default_target h)) business_unit
      (''%'' @ role_description' @ ''%'') = role' # others'"
    and same: "dr_code role' = dr_code role"
    by simp_all
  note t = assign_twice [OF f r r' same]
  show "fst second =
        Inr (Warning_mark, Already_assigned report_prefix (dr_code role) business_unit)"
    unfolding second_def first_def by (rule t(1))
  show "\<not> list_ex is_insert (executed (events_since (snd first) (snd second)))"
    unfolding second_def first_def by (rule t(2))
  show "store (snd second) = store (snd first)"
    unfolding second_def first_def by (rule t(3))
  show c: "count_assigned (store (snd second) (default_target h)) business_unit report_prefix
        (dr_code role) =
      max 1 (count_assigned (store w (default_target h)) business_unit report_prefix
        (dr_code role))"
    unfolding second_def first_def by (rule t(4))
  assume "count_assigned (store w (default_target h)) business_unit report_prefix
         (dr_code role) \<le> 1"
  with c show "count_assigned (store (snd second) (default_target h)) business_unit
      report_prefix (dr_code role) = 1"
    by simp
next
  have "no_new_duplicates (store w cs) (store (snd first) cs)"
    using assign_store_cases [of h report_prefix business_unit role_description
        application_type order custom_tag sales_office center_logistical w]
    unfolding first_def
    by (auto simp: insert_absent_no_new_duplicates simp del: apply_stmt.simps)
  then show "count_assigned (store (snd first) cs) bu p r
      \<le> max 1 (count_assigned (store w cs) bu p r)"
    by (simp add: no_new_duplicates_def)
next
  have "no_new_duplicates (store w cs)
      (store (snd (bulk_assign_reports_to_roles h assignments_data w)) cs)"
    using bulk_assign_store_cases [of w h assignments_data] by auto
  then show "count_assigned (store (snd (bulk_assign_reports_to_roles h assignments_data w)) cs)
      bu p r \<le> max 1 (count_assigned (store w cs) bu p r)"
    by (simp add: no_new_duplicates_def)
qed

theorem no_duplicate_assignment_witness:
  "fst (assign_report_to_role example_host ''sales'' ''BU1'' ''istrador'' (Some ''sales_force'')
          (Some 2) None None None
          (snd (assign_report_to_role example_host ''sales'' ''BU1'' ''admin'' None None None
                  None None (example_world [])))) =
     Inr (Warning_mark, Already_assigned ''sales'' ''ADM'' ''BU1'') \<and>
   count_assigned
     (store
        (snd (assign_report_to_role example_host ''sales'' ''BU1'' ''istrador''
                (Some ''sales_force'') (Some 2) None None None
                (snd (assign_report_to_role example_host ''sales'' ''BU1'' ''admin'' None None
                        None None None (example_world [])))))
        (default_target example_host))
     ''BU1'' ''sales'' ''ADM'' = 1"
proof -
  let ?w = "example_world []"
  let ?role = "\<lparr>dr_code = ''ADM'', dr_description = ''administrador'',
          dr_application_type = Some ''sales_force'', dr_business_unit = ''BU1'',
          dr_order = None\<rparr>"
  have f: "faults ?w = []"
    by (simp add: example_world_def)
  have r: "select_roles example_host (store ?w (default_target example_host))
      ''BU1'' (''%'' @ ''admin'' @ ''%'') = ?role # []"
    by (simp add: select_roles_def example_world_def example_db_def example_host_def
        example_like_def)
  have r': "select_roles example_host (store ?w (default_target example_host))
      ''BU1'' (''%'' @ ''istrador'' @ ''%'') = ?role # []"
    by (simp add: select_roles_def example_world_def example_db_def example_host_def
        example_like_def)
  have n: "count_assigned (store ?w (default_target example_host)) ''BU1'' ''sales''
      (dr_code ?role) \<le> 1"
    by (simp add: example_world_def example_db_def count_assigned_def)
  have c: "dr_code ?role = ''ADM''"
    by simp
  show ?thesis
    using no_duplicate_assignment
      [where h = example_host and w = ?w and business_unit = "''BU1''"
        and report_prefix = "''sales''" and role_description = "''admin''"
        and role_description' = "''istrador''" and role = ?role and others = "[]"
        and role' = ?role and others' = "[]"
        and application_type = None and order = None and custom_tag = None
        and sales_office = None and center_logistical = None
        and application_type' = "Some ''sales_force''" and order' = "Some 2"
        and custom_tag' = None and sales_office' = None and center_logistical' = None]
      f r r' n
    unfolding c by blast
qed

end
